theory Spec2Isabelle
  imports Complex_Main
begin

section \<open>Documents of the store and Go's dynamic values\<close>

text \<open>
  The service reads documents of a document store. A document read with \<open>doc.Data()\<close>
  or \<open>doc.DataTo(&entity)\<close> into a \<open>map[string]interface{}\<close> is a finite map from
  field names to dynamically typed values. The store keeps integers and doubles as
  different kinds of number, and Go's type assertion \<open>v.(float64)\<close> tells them apart,
  so the model keeps both. A \<open>float64\<close> is modelled as a real number: the functions
  below only compare coordinates and distances with each other and with constants.
\<close>

datatype dyn =
    DNil
  | DBool bool
  | DInt int
  | DFloat real
  | DString string
  | DMap "(string \<times> dyn) list"
  | DSlice "dyn list"

type_synonym document = "(string \<times> dyn) list"

text \<open>\<open>m[key]\<close> on a Go map: the value, or the nil interface when the key is absent.\<close>

definition index :: "document \<Rightarrow> string \<Rightarrow> dyn option" where
  "index m key = map_of m key"

text \<open>The two-valued type assertions \<open>v, ok := x.(T)\<close>; \<open>None\<close> is \<open>ok = false\<close>.\<close>

fun assertString :: "dyn option \<Rightarrow> string option" where
  "assertString (Some (DString s)) = Some s"
| "assertString _ = None"

fun assertFloat64 :: "dyn option \<Rightarrow> real option" where
  "assertFloat64 (Some (DFloat x)) = Some x"
| "assertFloat64 _ = None"

fun assertMap :: "dyn option \<Rightarrow> document option" where
  "assertMap (Some (DMap m)) = Some m"
| "assertMap _ = None"

text \<open>\<open>x, _ := v.(float64)\<close>: the zero value when the assertion fails.\<close>

definition float64OrZero :: "dyn option \<Rightarrow> real" where
  "float64OrZero v = (case assertFloat64 v of Some x \<Rightarrow> x | None \<Rightarrow> 0)"

section \<open>The document store\<close>

text \<open>
  The store is an external collaborator. A collection holds a list of documents, and a
  query against a collection may fail as a whole (the store is unavailable). A query
  that succeeds returns the documents of the collection that satisfy every
  \<open>Where\<close> clause, here in the order the collection lists them.
\<close>

record store =
  contents :: "string \<Rightarrow> document list"
  unavailable :: "string \<Rightarrow> bool"

text \<open>A field path such as \<open>bounds.min_lat\<close>, given as the list of its segments.\<close>

fun fieldPath :: "document \<Rightarrow> string list \<Rightarrow> dyn option" where
  "fieldPath d [] = None"
| "fieldPath d [k] = map_of d k"
| "fieldPath d (k # ks) = (case map_of d k of Some (DMap m) \<Rightarrow> fieldPath m ks | _ \<Rightarrow> None)"

fun numeric :: "dyn option \<Rightarrow> real option" where
  "numeric (Some (DInt i)) = Some (of_int i)"
| "numeric (Some (DFloat x)) = Some x"
| "numeric _ = None"

text \<open>\<open>Where(path, "==", true)\<close>, \<open>Where(path, "<=", x)\<close> and \<open>Where(path, ">=", x)\<close>.\<close>

definition whereTrue :: "string list \<Rightarrow> document \<Rightarrow> bool" where
  "whereTrue path d = (fieldPath d path = Some (DBool True))"

definition whereLe :: "string list \<Rightarrow> real \<Rightarrow> document \<Rightarrow> bool" where
  "whereLe path x d = (case numeric (fieldPath d path) of Some v \<Rightarrow> v \<le> x | None \<Rightarrow> False)"

definition whereGe :: "string list \<Rightarrow> real \<Rightarrow> document \<Rightarrow> bool" where
  "whereGe path x d = (case numeric (fieldPath d path) of Some v \<Rightarrow> v \<ge> x | None \<Rightarrow> False)"

text \<open>\<open>query.Documents(ctx).GetAll()\<close>: \<open>None\<close> is a returned error.\<close>

definition getAll :: "store \<Rightarrow> string \<Rightarrow> (document \<Rightarrow> bool) \<Rightarrow> document list option" where
  "getAll st collection wheres =
     (if unavailable st collection then None
      else Some (filter wheres (contents st collection)))"

section \<open>Outcomes of a call\<close>

text \<open>
  A Go function of this service returns a value, returns an error, or panics (a failed
  one-valued type assertion). An \<open>err != nil\<close> test sees a returned error and never a
  panic. Every function that queries the store also returns the list of the collections
  it has queried, in order, so that "no lookup was made" can be stated.
\<close>

datatype error = StoreError | NoCoastlinesFound

datatype 'a outcome = Ok 'a | Err error | Panic

type_synonym trace = "string list"

datatype 'a response = HttpError nat string | HttpOK 'a | HttpPanic

definition StatusBadRequest :: nat where
  "StatusBadRequest = 400"

definition StatusInternalServerError :: nat where
  "StatusInternalServerError = 500"

section \<open>The coastline classifier\<close>

text \<open>The loop of \<open>isPointOnLand\<close> over the active land polygons.\<close>

fun landLoop :: "real \<Rightarrow> real \<Rightarrow> document list \<Rightarrow> bool" where
  "landLoop lat lon [] = False"
| "landLoop lat lon (data # docs) =
     (case assertString (index data ''geometry'') of
        None \<Rightarrow> landLoop lat lon docs
      | Some geometryStr \<Rightarrow>
          (case assertMap (index data ''bounds'') of
             None \<Rightarrow> landLoop lat lon docs
           | Some bounds \<Rightarrow>
               (let minLat = float64OrZero (index bounds ''min_lat'');
                    maxLat = float64OrZero (index bounds ''max_lat'');
                    minLon = float64OrZero (index bounds ''min_lon'');
                    maxLon = float64OrZero (index bounds ''max_lon'')
                in if lat \<ge> minLat \<and> lat \<le> maxLat \<and> lon \<ge> minLon \<and> lon \<le> maxLon
                   then True
                   else landLoop lat lon docs)))"

definition isPointOnLand :: "store \<Rightarrow> real \<Rightarrow> real \<Rightarrow> bool outcome \<times> trace" where
  "isPointOnLand st lat lon =
     (case getAll st ''land_polygons'' (whereTrue [''is_active'']) of
        None \<Rightarrow> (Err StoreError, [''land_polygons''])
      | Some docs \<Rightarrow> (Ok (landLoop lat lon docs), [''land_polygons'']))"

text \<open>\<open>math.Atan2\<close> on real numbers, and the haversine distance in kilometres.\<close>

definition atan2 :: "real \<Rightarrow> real \<Rightarrow> real" where
  "atan2 y x =
     (if x > 0 then arctan (y / x)
      else if x < 0 \<and> y \<ge> 0 then arctan (y / x) + pi
      else if x < 0 then arctan (y / x) - pi
      else if y > 0 then pi / 2
      else if y < 0 then - (pi / 2)
      else 0)"

definition haversineDistance :: "real \<Rightarrow> real \<Rightarrow> real \<Rightarrow> real \<Rightarrow> real" where
  "haversineDistance lat1 lon1 lat2 lon2 =
     (let R = 6371;
          dLat = (lat2 - lat1) * pi / 180;
          dLon = (lon2 - lon1) * pi / 180;
          a = sin (dLat / 2) * sin (dLat / 2) +
              cos (lat1 * pi / 180) * cos (lat2 * pi / 180) *
              sin (dLon / 2) * sin (dLon / 2);
          c = 2 * atan2 (sqrt a) (sqrt (1 - a))
      in R * c)"

text \<open>
  The loop of \<open>calculateDistanceToCoast\<close> over the active coastlines, with the running
  minimum and the closest point (\<open>None\<close> is the nil map). The result \<open>None\<close> is a
  panic: the second block reads the four bounds with one-valued assertions.
\<close>

fun coastLoop ::
  "real \<Rightarrow> real \<Rightarrow> document list \<Rightarrow> real \<Rightarrow> (real \<times> real) option
     \<Rightarrow> (real \<times> (real \<times> real) option) option" where
  "coastLoop lat lon [] minDistance closestPoint = Some (minDistance, closestPoint)"
| "coastLoop lat lon (data # docs) minDistance closestPoint =
     (case assertMap (index data ''bounds'') of
        None \<Rightarrow> coastLoop lat lon docs minDistance closestPoint
      | Some bounds \<Rightarrow>
          (let minLat = float64OrZero (index bounds ''min_lat'');
               maxLat = float64OrZero (index bounds ''max_lat'');
               minLon = float64OrZero (index bounds ''min_lon'');
               maxLon = float64OrZero (index bounds ''max_lon'')
           in if lat < minLat - 2 \<or> lat > maxLat + 2 \<or> lon < minLon - 2 \<or> lon > maxLon + 2
              then coastLoop lat lon docs minDistance closestPoint
              else
                (case (assertFloat64 (index bounds ''min_lat''),
                       assertFloat64 (index bounds ''max_lat''),
                       assertFloat64 (index bounds ''min_lon''),
                       assertFloat64 (index bounds ''max_lon'')) of
                   (Some a, Some b, Some c, Some d) \<Rightarrow>
                     (let centerLat = (a + b) / 2;
                          centerLon = (c + d) / 2;
                          dist = haversineDistance lat lon centerLat centerLon
                      in if dist < minDistance
                         then coastLoop lat lon docs dist (Some (centerLat, centerLon))
                         else coastLoop lat lon docs minDistance closestPoint)
                 | _ \<Rightarrow> None)))"

definition calculateDistanceToCoast ::
  "store \<Rightarrow> real \<Rightarrow> real \<Rightarrow> (real \<times> (real \<times> real)) outcome \<times> trace" where
  "calculateDistanceToCoast st lat lon =
     (case getAll st ''coastlines'' (whereTrue [''is_active'']) of
        None \<Rightarrow> (Err StoreError, [''coastlines''])
      | Some docs \<Rightarrow>
          (case coastLoop lat lon docs 99999999 None of
             None \<Rightarrow> (Panic, [''coastlines''])
           | Some (minDistance, None) \<Rightarrow> (Err NoCoastlinesFound, [''coastlines''])
           | Some (minDistance, Some closestPoint) \<Rightarrow>
               (Ok (minDistance, closestPoint), [''coastlines''])))"

definition classifyPoint :: "store \<Rightarrow> real \<Rightarrow> real \<Rightarrow> (bool \<times> real) outcome \<times> trace" where
  "classifyPoint st lat lon =
     (case isPointOnLand st lat lon of
        (Panic, t1) \<Rightarrow> (Panic, t1)
      | (Err e, t1) \<Rightarrow>
          (case calculateDistanceToCoast st lat lon of
             (Panic, t2) \<Rightarrow> (Panic, t1 @ t2)
           | (Err e2, t2) \<Rightarrow> (Err e2, t1 @ t2)
           | (Ok (distanceToCoast, _), t2) \<Rightarrow>
               (Ok (distanceToCoast < 1.0, distanceToCoast), t1 @ t2))
      | (Ok isLand, t1) \<Rightarrow>
          (case calculateDistanceToCoast st lat lon of
             (Panic, t2) \<Rightarrow> (Panic, t1 @ t2)
           | (Err e2, t2) \<Rightarrow> (Ok (isLand, 10.0), t1 @ t2)
           | (Ok (distanceToCoast, _), t2) \<Rightarrow> (Ok (isLand, distanceToCoast), t1 @ t2)))"

definition determineGridResolution :: "bool \<Rightarrow> real \<Rightarrow> string" where
  "determineGridResolution isLand distanceToCoast =
     (if isLand then ''1x1km''
      else if distanceToCoast > 1000 then ''100x100km''
      else ''10x10km'')"

text \<open>
  The body of \<open>/coastline/batch-classify\<close> after JSON decoding: a list of points.
  A handler of a POST endpoint takes the result of decoding the body, \<open>None\<close> when
  the decoder returns an error.
\<close>

record LatLon =
  Lat :: real
  Lon :: real

text \<open>
  The body of the loop of \<open>batchClassifyHandler\<close>: the map that one point appends to
  \<open>results\<close>. \<open>None\<close> is a panic raised while the point is classified.
\<close>

definition classifyEntry :: "store \<Rightarrow> 'a LatLon_scheme \<Rightarrow> document option \<times> trace" where
  "classifyEntry st point =
     (if Lat point < -90 \<or> Lat point > 90 \<or> Lon point < -180 \<or> Lon point > 180
      then (Some [(''error'', DString ''Invalid coordinates'')], [])
      else
        (case classifyPoint st (Lat point) (Lon point) of
           (Panic, t) \<Rightarrow> (None, t)
         | (Err e, t) \<Rightarrow> (Some [(''error'', DString ''Classification failed'')], t)
         | (Ok (isLand, distanceToCoast), t) \<Rightarrow>
             (let gridResolution = determineGridResolution isLand distanceToCoast;
                  result = [(''type'', DString (if isLand then ''land'' else ''ocean'')),
                            (''distance_to_coast_km'', DFloat distanceToCoast),
                            (''grid_resolution'', DString gridResolution)]
              in (Some result, t))))"

text \<open>The loop over the points, in input order; a panic ends it.\<close>

fun classifyLoop :: "store \<Rightarrow> 'a LatLon_scheme list \<Rightarrow> document list option \<times> trace" where
  "classifyLoop st [] = (Some [], [])"
| "classifyLoop st (point # points) =
     (case classifyEntry st point of
        (None, t1) \<Rightarrow> (None, t1)
      | (Some result, t1) \<Rightarrow>
          (case classifyLoop st points of
             (None, t) \<Rightarrow> (None, t1 @ t)
           | (Some results, t) \<Rightarrow> (Some (result # results), t1 @ t)))"

definition batchClassifyHandler ::
  "store \<Rightarrow> 'a LatLon_scheme list option \<Rightarrow> dyn response \<times> trace" where
  "batchClassifyHandler st body =
     (case body of
        None \<Rightarrow> (HttpError StatusBadRequest ''Invalid JSON body'', [])
      | Some points \<Rightarrow>
          if length points = 0 then (HttpError StatusBadRequest ''No points provided'', [])
          else if length points > 1000
          then (HttpError StatusBadRequest ''Too many points (max 1000)'', [])
          else
            (case classifyLoop st points of
               (None, t) \<Rightarrow> (HttpPanic, t)
             | (Some results, t) \<Rightarrow>
                 (HttpOK (DMap [(''results'', DSlice (map DMap results)),
                                (''count'', DInt (int (length results)))]), t)))"

section \<open>Library functions the service calls\<close>

text \<open>
  The service parses GeoJSON and tests containment with a geometry library, parses
  numbers with the standard library and decodes documents into structs with the store's
  client. None of them is code of this repository, so the model takes them as
  parameters: \<open>None\<close> is a returned error.
\<close>

type_synonym point = "real \<times> real"

type_synonym ring = "point list"

type_synonym polygon = "ring list"

datatype geometry = Polygon polygon | MultiPolygon "polygon list" | OtherGeometry

record Bounds =
  MinLat :: real
  MaxLat :: real
  MinLon :: real
  MaxLon :: real

text \<open>
  The fields of \<open>SovereignState\<close> and \<open>Country\<close> that the bulk catalog reads. The
  structs' other fields (numeric ISO code, flag URL, currency, languages, geometry,
  timestamps, the active flag) are decoded and not used.
\<close>

record Entity =
  ID :: string
  Name :: string
  OfficialName :: string
  ISOAlpha2 :: string
  ISOAlpha3 :: string
  Continent :: string
  EntityBounds :: "Bounds"
  Capital :: string
  Population :: int
  AreaKM2 :: real

record SovereignState = Entity +
  FlagEmoji :: string

record Country = Entity +
  SovereignStateID :: string

record library =
  unmarshalGeometry :: "string \<Rightarrow> geometry option"
  polygonContains :: "polygon \<Rightarrow> point \<Rightarrow> bool"
  parseFloat :: "string \<Rightarrow> real option"
  atoi :: "string \<Rightarrow> int option"
  dataToSovereignState :: "document \<Rightarrow> SovereignState option"
  dataToCountry :: "document \<Rightarrow> Country option"

section \<open>The spatial resolver\<close>

fun anyPolygonContains :: "library \<Rightarrow> polygon list \<Rightarrow> point \<Rightarrow> bool" where
  "anyPolygonContains L [] pt = False"
| "anyPolygonContains L (poly # g) pt =
     (if polygonContains L poly pt then True else anyPolygonContains L g pt)"

definition isPointInGeometry :: "library \<Rightarrow> real \<Rightarrow> real \<Rightarrow> string \<Rightarrow> bool" where
  "isPointInGeometry L lat lon geometryJSON =
     (if geometryJSON = '''' then False
      else
        (case unmarshalGeometry L geometryJSON of
           None \<Rightarrow> False
         | Some geom \<Rightarrow>
             (let pt = (lon, lat)
              in case geom of
                   Polygon g \<Rightarrow> polygonContains L g pt
                 | MultiPolygon g \<Rightarrow> anyPolygonContains L g pt
                 | OtherGeometry \<Rightarrow> False)))"

text \<open>
  Stage 2 of \<open>findContainingEntities\<close>: the loop over the candidates. Decoding a
  snapshot that a query returned into a \<open>map[string]interface{}\<close> does not fail (it is
  what \<open>doc.Data()\<close> does), so the entity is the document itself.
\<close>

fun containingLoop :: "library \<Rightarrow> real \<Rightarrow> real \<Rightarrow> document list \<Rightarrow> document list" where
  "containingLoop L lat lon [] = []"
| "containingLoop L lat lon (entity # docs) =
     (case assertString (index entity ''geometry'') of
        None \<Rightarrow> containingLoop L lat lon docs
      | Some geometryJSON \<Rightarrow>
          if geometryJSON \<noteq> '''' \<and> isPointInGeometry L lat lon geometryJSON
          then entity # containingLoop L lat lon docs
          else containingLoop L lat lon docs)"

text \<open>Stage 1: the bounding-box query, as the store evaluates it on one document.\<close>

definition boundsQuery :: "real \<Rightarrow> real \<Rightarrow> document \<Rightarrow> bool" where
  "boundsQuery lat lon d =
     (whereTrue [''is_active''] d \<and>
      whereLe [''bounds'', ''min_lat''] lat d \<and>
      whereGe [''bounds'', ''max_lat''] lat d \<and>
      whereLe [''bounds'', ''min_lon''] lon d \<and>
      whereGe [''bounds'', ''max_lon''] lon d)"

definition findContainingEntities ::
  "library \<Rightarrow> store \<Rightarrow> string \<Rightarrow> real \<Rightarrow> real \<Rightarrow> document list \<times> trace" where
  "findContainingEntities L st collection lat lon =
     (case getAll st collection (boundsQuery lat lon) of
        None \<Rightarrow> ([], [collection])
      | Some docs \<Rightarrow> (containingLoop L lat lon docs, [collection]))"

section \<open>Query parameters\<close>

text \<open>
  \<open>r.URL.Query()\<close> as the list of the key-value pairs of the query string, in order;
  \<open>Get\<close> returns the first value of a key, or the empty string.
\<close>

type_synonym query = "(string \<times> string) list"

definition queryGet :: "query \<Rightarrow> string \<Rightarrow> string" where
  "queryGet q key = (case map_of q key of Some v \<Rightarrow> v | None \<Rightarrow> '''')"

definition getIntQueryParam :: "library \<Rightarrow> query \<Rightarrow> string \<Rightarrow> int \<Rightarrow> int" where
  "getIntQueryParam L q param defaultValue =
     (let v = queryGet q param
      in if v = '''' then defaultValue
         else (case atoi L v of None \<Rightarrow> defaultValue | Some intValue \<Rightarrow> intValue))"

definition getFloatQueryParam :: "library \<Rightarrow> query \<Rightarrow> string \<Rightarrow> real \<Rightarrow> real" where
  "getFloatQueryParam L q param defaultValue =
     (let v = queryGet q param
      in if v = '''' then defaultValue
         else (case parseFloat L v of None \<Rightarrow> defaultValue | Some floatValue \<Rightarrow> floatValue))"

section \<open>The boundaries handlers\<close>

definition boundaryGroup :: "string \<Rightarrow> document list \<Rightarrow> dyn list" where
  "boundaryGroup ty entities =
     (if length entities > 0
      then [DMap [(''type'', DString ty), (''entities'', DSlice (map DMap entities))]]
      else [])"

definition getBoundariesContainingHandler ::
  "library \<Rightarrow> store \<Rightarrow> query \<Rightarrow> dyn response \<times> trace" where
  "getBoundariesContainingHandler L st q =
     (case parseFloat L (queryGet q ''lat'') of
        None \<Rightarrow> (HttpError StatusBadRequest ''Invalid lat parameter'', [])
      | Some lat \<Rightarrow>
          (case parseFloat L (queryGet q ''lon'') of
             None \<Rightarrow> (HttpError StatusBadRequest ''Invalid lon parameter'', [])
           | Some lon \<Rightarrow>
               (case findContainingEntities L st ''sovereign_states'' lat lon of (states, t1) \<Rightarrow>
                case findContainingEntities L st ''countries'' lat lon of (countries, t2) \<Rightarrow>
                case findContainingEntities L st ''map_units'' lat lon of (units, t3) \<Rightarrow>
                case findContainingEntities L st ''map_subunits'' lat lon of (subunits, t4) \<Rightarrow>
                  (let boundaries =
                         boundaryGroup ''sovereign_state'' states @
                         boundaryGroup ''country'' countries @
                         boundaryGroup ''map_unit'' units @
                         boundaryGroup ''map_subunit'' subunits
                   in (HttpOK (DMap [(''lat'', DFloat lat),
                                     (''lon'', DFloat lon),
                                     (''boundaries'', DSlice boundaries),
                                     (''count'', DInt (int (length boundaries)))]),
                       t1 @ t2 @ t3 @ t4)))))"

definition mockBoundary :: "string \<Rightarrow> string \<Rightarrow> string \<Rightarrow> int \<Rightarrow> string \<Rightarrow> document" where
  "mockBoundary i n ty level res =
     [(''id'', DString i), (''name'', DString n), (''type'', DString ty),
      (''level'', DInt level), (''resolution_requirement'', DString res)]"

definition getMockBoundariesForPoint :: "real \<Rightarrow> real \<Rightarrow> document list" where
  "getMockBoundariesForPoint lat lon =
     (if lat \<ge> 25.0 \<and> lat \<le> 49.0 \<and> lon \<ge> -125.0 \<and> lon \<le> -66.0
      then mockBoundary ''usa'' ''United States'' ''country'' 0 ''1km'' #
        (if lat \<ge> 40.4 \<and> lat \<le> 45.0 \<and> lon \<ge> -79.8 \<and> lon \<le> -71.8
         then mockBoundary ''ny_usa'' ''New York'' ''state'' 1 ''100m'' #
           (if lat \<ge> 40.4 \<and> lat \<le> 40.9 \<and> lon \<ge> -74.3 \<and> lon \<le> -73.7
            then mockBoundary ''nyc_ny_usa'' ''New York City'' ''city'' 2 ''100m'' #
              (if lat \<ge> 40.68 \<and> lat \<le> 40.88 \<and> lon \<ge> -74.05 \<and> lon \<le> -73.90
               then [mockBoundary ''manhattan_core'' ''Manhattan'' ''borough'' 3 ''100m'']
               else [])
            else [])
         else [])
      else [])"

definition getMockLandmarksForPoint :: "real \<Rightarrow> real \<Rightarrow> string list" where
  "getMockLandmarksForPoint lat lon =
     (if lat \<ge> 40.4 \<and> lat \<le> 40.9 \<and> lon \<ge> -74.3 \<and> lon \<le> -73.7
      then [''statue_of_liberty'', ''empire_state_building'', ''central_park'']
      else [])"

text \<open>\<open>strings.ToLower\<close> on ASCII text; other bytes are left as they are.\<close>

definition toLowerChar :: "char \<Rightarrow> char" where
  "toLowerChar c =
     (if (65::nat) \<le> of_char c \<and> of_char c \<le> (90::nat)
      then char_of (of_char c + (32::nat)) else c)"

definition toLower :: "string \<Rightarrow> string" where
  "toLower s = map toLowerChar s"

record PointLookup = LatLon +
  SquareID :: string

record SquareEnrichment =
  EnrichedSquareID :: string
  BoundaryTags :: "string list"
  Resolution :: string
  LandmarksNearby :: "string list"

text \<open>
  The inner loop of \<open>batchLookupBoundariesHandler\<close> over the boundaries of one point,
  with the tags collected so far and the current resolution. \<open>None\<close> is a panic of
  one of the assertions \<open>boundary["name"].(string)\<close> and
  \<open>boundary["resolution_requirement"].(string)\<close>.
\<close>

fun boundaryLoop :: "document list \<Rightarrow> string list \<Rightarrow> string \<Rightarrow> (string list \<times> string) option" where
  "boundaryLoop [] boundaryTags resolution = Some (boundaryTags, resolution)"
| "boundaryLoop (boundary # boundaries) boundaryTags resolution =
     (case assertString (index boundary ''name'') of
        None \<Rightarrow> None
      | Some n \<Rightarrow>
          (if index boundary ''resolution_requirement'' \<noteq> None \<and>
              index boundary ''resolution_requirement'' \<noteq> Some DNil
           then
             (case assertString (index boundary ''resolution_requirement'') of
                None \<Rightarrow> None
              | Some r \<Rightarrow> boundaryLoop boundaries (boundaryTags @ [toLower n]) r)
           else boundaryLoop boundaries (boundaryTags @ [toLower n]) resolution))"

fun enrichLoop :: "PointLookup list \<Rightarrow> SquareEnrichment list option" where
  "enrichLoop [] = Some []"
| "enrichLoop (point # points) =
     (case boundaryLoop (getMockBoundariesForPoint (Lat point) (Lon point)) [] ''1km'' of
        None \<Rightarrow> None
      | Some (boundaryTags, resolution) \<Rightarrow>
          (let landmarksNearby = getMockLandmarksForPoint (Lat point) (Lon point);
               result = \<lparr>EnrichedSquareID = SquareID point,
                         BoundaryTags = boundaryTags,
                         Resolution = resolution,
                         LandmarksNearby = landmarksNearby\<rparr>
           in case enrichLoop points of
                None \<Rightarrow> None
              | Some results \<Rightarrow> Some (result # results)))"

definition batchLookupBoundariesHandler ::
  "PointLookup list option \<Rightarrow> SquareEnrichment list response" where
  "batchLookupBoundariesHandler body =
     (case body of
        None \<Rightarrow> HttpError StatusBadRequest ''Invalid request body''
      | Some points \<Rightarrow>
          (case enrichLoop points of
             None \<Rightarrow> HttpPanic
           | Some results \<Rightarrow> HttpOK results))"

section \<open>The bulk countries catalog\<close>

definition boundsValue :: "Bounds \<Rightarrow> dyn" where
  "boundsValue b =
     DMap [(''min_lat'', DFloat (MinLat b)), (''max_lat'', DFloat (MaxLat b)),
           (''min_lon'', DFloat (MinLon b)), (''max_lon'', DFloat (MaxLon b))]"

text \<open>The first loop over the sovereign states: the lookup map, the last document of an id winning.\<close>

fun sovereignMapLoop ::
  "library \<Rightarrow> document list \<Rightarrow> (string \<rightharpoonup> SovereignState) \<Rightarrow> (string \<rightharpoonup> SovereignState)" where
  "sovereignMapLoop L [] sovereignMap = sovereignMap"
| "sovereignMapLoop L (doc # docs) sovereignMap =
     (case dataToSovereignState L doc of
        None \<Rightarrow> sovereignMapLoop L docs sovereignMap
      | Some sovereign \<Rightarrow> sovereignMapLoop L docs (sovereignMap(ID sovereign \<mapsto> sovereign)))"

definition sovereignEntry :: "SovereignState \<Rightarrow> document" where
  "sovereignEntry sovereign =
     [(''code'', DString (ISOAlpha2 sovereign)),
      (''name'', DString (Name sovereign)),
      (''continent'', DString (Continent sovereign)),
      (''sovereign_state_name'', DNil),
      (''is_territory'', DBool False),
      (''id'', DString (ID sovereign)),
      (''official_name'', DString (OfficialName sovereign)),
      (''type'', DString ''sovereign_state''),
      (''iso_alpha2'', DString (ISOAlpha2 sovereign)),
      (''iso_alpha3'', DString (ISOAlpha3 sovereign)),
      (''flag_emoji'', DString (FlagEmoji sovereign)),
      (''capital'', DString (Capital sovereign)),
      (''population'', DInt (Population sovereign)),
      (''area_km2'', DFloat (AreaKM2 sovereign)),
      (''bounds'', boundsValue (EntityBounds sovereign))]"

text \<open>
  The second loop over the sovereign states: every decoded state is marked in
  \<open>processedEntities\<close> (a \<open>map[string]bool\<close>, false where unset) and appended.
\<close>

fun sovereignLoop ::
  "library \<Rightarrow> document list \<Rightarrow> (string \<Rightarrow> bool) \<Rightarrow> document list \<times> (string \<Rightarrow> bool)" where
  "sovereignLoop L [] processedEntities = ([], processedEntities)"
| "sovereignLoop L (doc # docs) processedEntities =
     (case dataToSovereignState L doc of
        None \<Rightarrow> sovereignLoop L docs processedEntities
      | Some sovereign \<Rightarrow>
          (case sovereignLoop L docs (processedEntities(ID sovereign := True)) of
             (result, processed) \<Rightarrow> (sovereignEntry sovereign # result, processed)))"

definition isTerritory :: "Country \<Rightarrow> bool" where
  "isTerritory country =
     (SovereignStateID country \<noteq> ID country \<and> SovereignStateID country \<noteq> '''')"

definition sovereignStateName :: "(string \<rightharpoonup> SovereignState) \<Rightarrow> Country \<Rightarrow> dyn" where
  "sovereignStateName sovereignMap country =
     (if isTerritory country
      then (case sovereignMap (SovereignStateID country) of
              Some sovereignState \<Rightarrow> DString (Name sovereignState)
            | None \<Rightarrow> DNil)
      else DNil)"

definition countryEntry :: "(string \<rightharpoonup> SovereignState) \<Rightarrow> Country \<Rightarrow> document" where
  "countryEntry sovereignMap country =
     [(''code'', DString (ISOAlpha2 country)),
      (''name'', DString (Name country)),
      (''continent'', DString (Continent country)),
      (''sovereign_state_name'', sovereignStateName sovereignMap country),
      (''is_territory'', DBool (isTerritory country)),
      (''id'', DString (ID country)),
      (''official_name'', DString (OfficialName country)),
      (''type'', DString ''country''),
      (''iso_alpha2'', DString (ISOAlpha2 country)),
      (''iso_alpha3'', DString (ISOAlpha3 country)),
      (''capital'', DString (Capital country)),
      (''population'', DInt (Population country)),
      (''area_km2'', DFloat (AreaKM2 country)),
      (''bounds'', boundsValue (EntityBounds country))]"

fun countryLoop ::
  "library \<Rightarrow> (string \<rightharpoonup> SovereignState) \<Rightarrow> document list \<Rightarrow> (string \<Rightarrow> bool) \<Rightarrow> document list" where
  "countryLoop L sovereignMap [] processedEntities = []"
| "countryLoop L sovereignMap (doc # docs) processedEntities =
     (case dataToCountry L doc of
        None \<Rightarrow> countryLoop L sovereignMap docs processedEntities
      | Some country \<Rightarrow>
          if processedEntities (ID country)
          then countryLoop L sovereignMap docs processedEntities
          else countryEntry sovereignMap country #
               countryLoop L sovereignMap docs (processedEntities(ID country := True)))"

definition bulkResponse :: "document list \<Rightarrow> string \<Rightarrow> dyn" where
  "bulkResponse result userID =
     DMap [(''countries'', DSlice (map DMap result)),
           (''user_id'', DString userID),
           (''visited_count'', DInt 0),
           (''total_count'', DInt (int (length result)))]"

definition getBulkCountriesHandler ::
  "library \<Rightarrow> store \<Rightarrow> query \<Rightarrow> dyn response \<times> trace" where
  "getBulkCountriesHandler L st q =
     (case getAll st ''sovereign_states'' (whereTrue [''is_active'']) of
        None \<Rightarrow>
          (HttpError StatusInternalServerError ''Failed to get sovereign states'',
           [''sovereign_states''])
      | Some sovereignDocs \<Rightarrow>
          (case getAll st ''countries'' (whereTrue [''is_active'']) of
             None \<Rightarrow>
               (HttpError StatusInternalServerError ''Failed to get countries'',
                [''sovereign_states'', ''countries''])
           | Some countryDocs \<Rightarrow>
               (let sovereignMap = sovereignMapLoop L sovereignDocs Map.empty
                in case sovereignLoop L sovereignDocs (\<lambda>_. False) of
                     (result1, processedEntities) \<Rightarrow>
                       (let result =
                              result1 @ countryLoop L sovereignMap countryDocs processedEntities;
                            userID = (if queryGet q ''user_id'' = '''' then ''unknown''
                                      else queryGet q ''user_id'')
                        in (HttpOK (bulkResponse result userID),
                            [''sovereign_states'', ''countries''])))))"

section \<open>Concrete library functions and stores for evaluation\<close>

text \<open>
  The theorems below hold for every library. To evaluate the model on concrete requests
  the parameters are set to small concrete functions: decimal numbers with an optional
  sign and fraction, 64-bit decimal integers, the even-odd rule for point in polygon, a
  table of four GeoJSON texts, and a decoder that reads the string fields of a document.
\<close>

definition digitOf :: "char \<Rightarrow> nat option" where
  "digitOf c =
     (if (48::nat) \<le> of_char c \<and> of_char c \<le> (57::nat) then Some (of_char c - 48) else None)"

fun digitsValue :: "string \<Rightarrow> nat \<Rightarrow> nat option" where
  "digitsValue [] acc = Some acc"
| "digitsValue (c # cs) acc =
     (case digitOf c of None \<Rightarrow> None | Some d \<Rightarrow> digitsValue cs (10 * acc + d))"

definition unsignedInt :: "string \<Rightarrow> nat option" where
  "unsignedInt s = (if s = [] then None else digitsValue s 0)"

definition signed :: "(string \<Rightarrow> 'a option) \<Rightarrow> ('a \<Rightarrow> 'a) \<Rightarrow> string \<Rightarrow> 'a option" where
  "signed parse neg s =
     (case s of
        [] \<Rightarrow> None
      | c # r \<Rightarrow>
          if c = CHR ''-'' then map_option neg (parse r)
          else if c = CHR ''+'' then parse r
          else parse s)"

definition decimalAtoi :: "string \<Rightarrow> int option" where
  "decimalAtoi s =
     (case signed (\<lambda>r. map_option int (unsignedInt r)) uminus s of
        None \<Rightarrow> None
      | Some n \<Rightarrow> if - (2 ^ 63) \<le> n \<and> n < 2 ^ 63 then Some n else None)"

definition unsignedDecimal :: "string \<Rightarrow> real option" where
  "unsignedDecimal s =
     (let ip = takeWhile (\<lambda>c. c \<noteq> CHR ''.'') s;
          rest = dropWhile (\<lambda>c. c \<noteq> CHR ''.'') s
      in case rest of
           [] \<Rightarrow> map_option real (unsignedInt ip)
         | dot # fp \<Rightarrow>
             (case (unsignedInt ip, unsignedInt fp) of
                (Some a, Some b) \<Rightarrow> Some (real a + real b / 10 ^ length fp)
              | _ \<Rightarrow> None))"

definition decimalParseFloat :: "string \<Rightarrow> real option" where
  "decimalParseFloat s = signed unsignedDecimal uminus s"

definition edgeCrosses :: "point \<Rightarrow> point \<Rightarrow> point \<Rightarrow> bool" where
  "edgeCrosses p a b =
     (case (p, a, b) of ((px, py), (x1, y1), (x2, y2)) \<Rightarrow>
        ((y1 > py) \<noteq> (y2 > py)) \<and> px < (x2 - x1) * (py - y1) / (y2 - y1) + x1)"

fun crossings :: "point \<Rightarrow> ring \<Rightarrow> bool" where
  "crossings p (a # b # r) = (edgeCrosses p a b \<noteq> crossings p (b # r))"
| "crossings p r = False"

definition evenOddContains :: "polygon \<Rightarrow> point \<Rightarrow> bool" where
  "evenOddContains poly p =
     (case poly of
        [] \<Rightarrow> False
      | outer # holes \<Rightarrow> crossings p outer \<and> \<not> list_ex (crossings p) holes)"

definition unitSquareJSON :: string where
  \<open>unitSquareJSON = ''{"type":"Polygon","coordinates":[[[0,0],[1,0],[1,1],[0,1],[0,0]]]}''\<close>

definition twoSquaresJSON :: string where
  \<open>twoSquaresJSON =
     ''{"type":"MultiPolygon","coordinates":[[[[0,0],[1,0],[1,1],[0,1],[0,0]]],[[[4,4],[6,4],[6,6],[4,6],[4,4]]]]}''\<close>

definition triangleJSON :: string where
  \<open>triangleJSON = ''{"type":"Polygon","coordinates":[[[0,0],[10,0],[0,10],[0,0]]]}''\<close>

definition lineJSON :: string where
  \<open>lineJSON = ''{"type":"LineString","coordinates":[[0,0],[1,1]]}''\<close>

definition tableUnmarshal :: "string \<Rightarrow> geometry option" where
  "tableUnmarshal s =
     (if s = unitSquareJSON then Some (Polygon [[(0, 0), (1, 0), (1, 1), (0, 1), (0, 0)]])
      else if s = twoSquaresJSON
      then Some (MultiPolygon [[[(0, 0), (1, 0), (1, 1), (0, 1), (0, 0)]],
                               [[(4, 4), (6, 4), (6, 6), (4, 6), (4, 4)]]])
      else if s = triangleJSON then Some (Polygon [[(0, 0), (10, 0), (0, 10), (0, 0)]])
      else if s = lineJSON then Some OtherGeometry
      else None)"

text \<open>A string field of a struct: the zero value when absent, an error on another type.\<close>

definition stringField :: "document \<Rightarrow> string \<Rightarrow> string option" where
  "stringField d k =
     (case index d k of
        None \<Rightarrow> Some ''''
      | Some DNil \<Rightarrow> Some ''''
      | Some (DString s) \<Rightarrow> Some s
      | Some _ \<Rightarrow> None)"

definition zeroBounds :: Bounds where
  "zeroBounds = \<lparr>MinLat = 0, MaxLat = 0, MinLon = 0, MaxLon = 0\<rparr>"

definition stringsToSovereignState :: "document \<Rightarrow> SovereignState option" where
  "stringsToSovereignState d =
     (case (stringField d ''id'', stringField d ''name'') of
        (Some i, Some n) \<Rightarrow>
          Some \<lparr>ID = i, Name = n, OfficialName = '''', ISOAlpha2 = '''', ISOAlpha3 = '''',
                Continent = '''', EntityBounds = zeroBounds, Capital = '''', Population = 0,
                AreaKM2 = 0, FlagEmoji = ''''\<rparr>
      | _ \<Rightarrow> None)"

definition stringsToCountry :: "document \<Rightarrow> Country option" where
  "stringsToCountry d =
     (case (stringField d ''id'', stringField d ''name'', stringField d ''sovereign_state_id'') of
        (Some i, Some n, Some s) \<Rightarrow>
          Some \<lparr>ID = i, Name = n, OfficialName = '''', ISOAlpha2 = '''', ISOAlpha3 = '''',
                Continent = '''', EntityBounds = zeroBounds, Capital = '''', Population = 0,
                AreaKM2 = 0, SovereignStateID = s\<rparr>
      | _ \<Rightarrow> None)"

definition sampleLibrary :: library where
  "sampleLibrary =
     \<lparr>unmarshalGeometry = tableUnmarshal,
      polygonContains = evenOddContains,
      parseFloat = decimalParseFloat,
      atoi = decimalAtoi,
      dataToSovereignState = stringsToSovereignState,
      dataToCountry = stringsToCountry\<rparr>"

definition boundsDoc :: "real \<Rightarrow> real \<Rightarrow> real \<Rightarrow> real \<Rightarrow> dyn" where
  "boundsDoc a b c d =
     DMap [(''min_lat'', DFloat a), (''max_lat'', DFloat b),
           (''min_lon'', DFloat c), (''max_lon'', DFloat d)]"

definition geoDoc :: "string \<Rightarrow> bool \<Rightarrow> string \<Rightarrow> dyn \<Rightarrow> document" where
  "geoDoc i active g b =
     [(''id'', DString i), (''is_active'', DBool active), (''geometry'', DString g), (''bounds'', b)]"

definition sampleStore :: "(string \<times> document list) list \<Rightarrow> string list \<Rightarrow> store" where
  "sampleStore colls down =
     \<lparr>contents = (\<lambda>c. case map_of colls c of Some ds \<Rightarrow> ds | None \<Rightarrow> []),
      unavailable = (\<lambda>c. c \<in> set down)\<rparr>"

text \<open>Sample stores, documents and request bodies.\<close>

definition emptyStore :: store where
  "emptyStore = sampleStore [] []"

definition triangleDoc :: document where
  "triangleDoc = geoDoc ''triangle'' True triangleJSON (boundsDoc 0 10 0 10)"

definition landStore :: store where
  "landStore = sampleStore [(''land_polygons'', [triangleDoc])] []"

definition landDownStore :: store where
  "landDownStore = sampleStore [] [''land_polygons'']"


definition squareA :: PointLookup where
  "squareA = \<lparr>Lat = 40.7128, Lon = -74.0060, SquareID = ''sq_a''\<rparr>"

definition squareB :: PointLookup where
  "squareB = \<lparr>Lat = 48.8566, Lon = 2.3522, SquareID = ''sq_b''\<rparr>"

definition mixedBatch :: "LatLon list" where
  "mixedBatch = [\<lparr>Lat = 0, Lon = 0\<rparr>, \<lparr>Lat = 91, Lon = 0\<rparr>]"

section \<open>The resolver's contract, in the words of the specification\<close>

text \<open>
  The specification describes the result of the resolver for a tier as the set of the
  documents \<open>d\<close> of the tier with \<open>d.is_active\<close> and \<open>contains(d.geometry, lon, lat)\<close>.
  \<open>geometryContains\<close> is that test on a document (a document without a geometry
  string contains no point), \<open>boundsContain\<close> says that the bounds rectangle of a
  document contains the point, and \<open>specContaining\<close> is the set of the specification.
\<close>

definition geometryContains :: "library \<Rightarrow> real \<Rightarrow> real \<Rightarrow> document \<Rightarrow> bool" where
  "geometryContains L lat lon d =
     (case assertString (index d ''geometry'') of
        None \<Rightarrow> False
      | Some g \<Rightarrow> isPointInGeometry L lat lon g)"

definition boundsContain :: "real \<Rightarrow> real \<Rightarrow> document \<Rightarrow> bool" where
  "boundsContain lat lon d =
     (whereLe [''bounds'', ''min_lat''] lat d \<and>
      whereGe [''bounds'', ''max_lat''] lat d \<and>
      whereLe [''bounds'', ''min_lon''] lon d \<and>
      whereGe [''bounds'', ''max_lon''] lon d)"

definition specContaining :: "library \<Rightarrow> document list \<Rightarrow> real \<Rightarrow> real \<Rightarrow> document set" where
  "specContaining L tier lat lon =
     {d \<in> set tier. whereTrue [''is_active''] d \<and> geometryContains L lat lon d}"

section \<open>Sample tiers and requests\<close>

definition squareDoc :: document where
  "squareDoc = geoDoc ''square'' True unitSquareJSON (boundsDoc 0 1 0 1)"

definition retiredDoc :: document where
  "retiredDoc = geoDoc ''retired'' False triangleJSON (boundsDoc 0 10 0 10)"

definition islandsDoc :: document where
  "islandsDoc = geoDoc ''islands'' True twoSquaresJSON (boundsDoc 0 6 0 6)"

definition narrowDoc :: document where
  "narrowDoc = geoDoc ''narrow'' True triangleJSON (boundsDoc 0 0.5 0 0.5)"

definition tierStore :: store where
  "tierStore = sampleStore [(''countries'', [triangleDoc, squareDoc, retiredDoc, islandsDoc])] []"

definition tierDownStore :: store where
  "tierDownStore = sampleStore [(''countries'', [triangleDoc])] [''countries'']"

definition narrowStore :: store where
  "narrowStore = sampleStore [(''countries'', [narrowDoc])] []"

definition northOfPole :: query where
  "northOfPole = [(''lat'', ''91''), (''lon'', ''0'')]"

definition sampleQuery :: query where
  "sampleQuery = [(''limit'', ''abc''), (''radius'', ''2.5''), (''page'', ''7'')]"

definition badLatitude :: query where
  "badLatitude = [(''lat'', ''abc''), (''lon'', ''0'')]"

section \<open>The bulk catalog's contract, in the words of the specification\<close>

text \<open>
  The specification speaks of the active sovereign states and the active countries, and
  of "each country whose id is not already emitted". \<open>decodedSovereigns\<close> and
  \<open>decodedCountries\<close> are the active documents of the two collections that decode, in
  the order of the collection; \<open>notYetEmitted\<close> keeps, from a list of countries, each
  one whose id is neither among the ids emitted before nor the id of a country kept
  before it; \<open>lastWithId\<close> is the lookup in the sovereign map, where the last state of
  an id wins.
\<close>

definition decodedSovereigns :: "library \<Rightarrow> store \<Rightarrow> SovereignState list" where
  "decodedSovereigns L st =
     List.map_filter (dataToSovereignState L)
       (filter (whereTrue [''is_active'']) (contents st ''sovereign_states''))"

definition decodedCountries :: "library \<Rightarrow> store \<Rightarrow> Country list" where
  "decodedCountries L st =
     List.map_filter (dataToCountry L)
       (filter (whereTrue [''is_active'']) (contents st ''countries''))"

fun notYetEmitted :: "string list \<Rightarrow> Country list \<Rightarrow> Country list" where
  "notYetEmitted emitted [] = []"
| "notYetEmitted emitted (c # cs) =
     (if ID c \<in> set emitted then notYetEmitted emitted cs
      else c # notYetEmitted (ID c # emitted) cs)"

definition lastWithId :: "SovereignState list \<Rightarrow> string \<Rightarrow> SovereignState option" where
  "lastWithId states k = find (\<lambda>s. ID s = k) (rev states)"

definition userIdOf :: "query \<Rightarrow> string" where
  "userIdOf q = (if queryGet q ''user_id'' = '''' then ''unknown'' else queryGet q ''user_id'')"

section \<open>A sample catalog\<close>

definition ukDoc :: document where
  "ukDoc = [(''id'', DString ''united_kingdom''), (''name'', DString ''United Kingdom''),
            (''is_active'', DBool True)]"

definition ukCountryDoc :: document where
  "ukCountryDoc = [(''id'', DString ''united_kingdom''), (''name'', DString ''United Kingdom''),
                   (''sovereign_state_id'', DString ''united_kingdom''),
                   (''is_active'', DBool True)]"

definition scotlandDoc :: document where
  "scotlandDoc = [(''id'', DString ''scotland''), (''name'', DString ''Scotland''),
                  (''sovereign_state_id'', DString ''united_kingdom''),
                  (''is_active'', DBool True)]"

definition ukState :: SovereignState where
  "ukState = \<lparr>ID = ''united_kingdom'', Name = ''United Kingdom'', OfficialName = '''',
              ISOAlpha2 = '''', ISOAlpha3 = '''', Continent = '''', EntityBounds = zeroBounds,
              Capital = '''', Population = 0, AreaKM2 = 0, FlagEmoji = ''''\<rparr>"

definition ukCountry :: Country where
  "ukCountry = \<lparr>ID = ''united_kingdom'', Name = ''United Kingdom'', OfficialName = '''',
                ISOAlpha2 = '''', ISOAlpha3 = '''', Continent = '''', EntityBounds = zeroBounds,
                Capital = '''', Population = 0, AreaKM2 = 0,
                SovereignStateID = ''united_kingdom''\<rparr>"

definition scotland :: Country where
  "scotland = \<lparr>ID = ''scotland'', Name = ''Scotland'', OfficialName = '''',
               ISOAlpha2 = '''', ISOAlpha3 = '''', Continent = '''', EntityBounds = zeroBounds,
               Capital = '''', Population = 0, AreaKM2 = 0,
               SovereignStateID = ''united_kingdom''\<rparr>"

definition catalogStore :: store where
  "catalogStore =
     sampleStore [(''sovereign_states'', [ukDoc]),
                  (''countries'', [ukCountryDoc, scotlandDoc, scotlandDoc])] []"

definition twinStore :: store where
  "twinStore = sampleStore [(''sovereign_states'', [ukDoc, ukDoc])] []"

section \<open>Sample coastlines\<close>

definition coastDoc :: document where
  "coastDoc = [(''is_active'', DBool True), (''bounds'', boundsDoc 4 6 4 6)]"

definition wholeNumberCoastDoc :: document where
  "wholeNumberCoastDoc =
     [(''is_active'', DBool True),
      (''bounds'', DMap [(''min_lat'', DInt 0), (''max_lat'', DInt 2),
                         (''min_lon'', DInt 0), (''max_lon'', DInt 2)])]"

definition coastStore :: store where
  "coastStore = sampleStore [(''coastlines'', [coastDoc])] []"

definition wholeNumberCoastStore :: store where
  "wholeNumberCoastStore = sampleStore [(''coastlines'', [wholeNumberCoastDoc])] []"

section \<open>Coastline bounds as the data model declares them\<close>

text \<open>
  The type \<open>Bounds\<close> of the service declares the four bounds of a document as \<open>float64\<close>
  fields. \<open>floatBounds\<close> says that a document whose \<open>bounds\<close> field is a map stores
  each of the four bounds as a \<open>float64\<close> value, and \<open>coastlinesWellTyped\<close> says so of
  every active coastline of a store.
\<close>

definition floatBounds :: "document \<Rightarrow> bool" where
  "floatBounds data =
     (case assertMap (index data ''bounds'') of
        None \<Rightarrow> True
      | Some bounds \<Rightarrow>
          assertFloat64 (index bounds ''min_lat'') \<noteq> None \<and>
          assertFloat64 (index bounds ''max_lat'') \<noteq> None \<and>
          assertFloat64 (index bounds ''min_lon'') \<noteq> None \<and>
          assertFloat64 (index bounds ''max_lon'') \<noteq> None)"

definition coastlinesWellTyped :: "store \<Rightarrow> bool" where
  "coastlinesWellTyped st =
     list_all floatBounds (filter (whereTrue [''is_active'']) (contents st ''coastlines''))"

text \<open>Sample batches, and stores whose queries fail.\<close>

definition coastNoLandStore :: store where
  "coastNoLandStore = sampleStore [(''coastlines'', [coastDoc])] [''land_polygons'']"

definition threeKinds :: "LatLon list" where
  "threeKinds = [\<lparr>Lat = 5, Lon = 5\<rparr>, \<lparr>Lat = 50, Lon = 50\<rparr>, \<lparr>Lat = 91, Lon = 0\<rparr>]"




text \<open>An active coastline whose bounds lack the field \<open>max_lat\<close>.\<close>

definition missingBoundCoastDoc :: document where
  "missingBoundCoastDoc =
     [(''is_active'', DBool True),
      (''bounds'', DMap [(''min_lat'', DFloat 0), (''min_lon'', DFloat 0),
                         (''max_lon'', DFloat 2)])]"

definition missingBoundCoastStore :: store where
  "missingBoundCoastStore = sampleStore [(''coastlines'', [missingBoundCoastDoc])] []"

section \<open>Resolution mapping\<close>

text \<open>
  Claim C5. The grid resolution is a total function of the land flag and the distance
  to the coast: on land it is "1x1km"; off land it is "100x100km" when the distance is
  greater than 1000 km and "10x10km" when the distance is at most 1000 km.
\<close>

theorem C5_grid_resolution:
  "determineGridResolution True d = ''1x1km'' \<and>
   determineGridResolution False d = (if d > 1000 then ''100x100km'' else ''10x10km'')"
  by (simp add: determineGridResolution_def)

theorem C5_grid_resolution_witness:
  "determineGridResolution True 5 = ''1x1km'' \<and>
   determineGridResolution False 1000 = ''10x10km'' \<and>
   determineGridResolution False 1000.5 = ''100x100km''"
  using C5_grid_resolution [of 5] C5_grid_resolution [of 1000] C5_grid_resolution [of "1000.5"]
  by simp

section \<open>Evaluating the samples\<close>

lemmas sample_defs = sampleStore_def getAll_def whereTrue_def geoDoc_def boundsDoc_def index_def
  float64OrZero_def

lemma land_by_bounds: "isPointOnLand landStore 9 9 = (Ok True, [''land_polygons''])"
  by (simp add: isPointOnLand_def landStore_def triangleDoc_def sample_defs)

lemma land_down: "isPointOnLand landDownStore 9 9 = (Err StoreError, [''land_polygons''])"
  by (simp add: isPointOnLand_def landDownStore_def sample_defs)

lemma no_coast_land:
  "calculateDistanceToCoast landStore 9 9 = (Err NoCoastlinesFound, [''coastlines''])"
  by (simp add: calculateDistanceToCoast_def landStore_def sample_defs)

lemma no_coast_land_down:
  "calculateDistanceToCoast landDownStore 9 9 = (Err NoCoastlinesFound, [''coastlines''])"
  by (simp add: calculateDistanceToCoast_def landDownStore_def sample_defs)

text \<open>
  A point at the centre of the bounds of a coastline is at distance 0 from the coast. A
  coastline whose bounds are stored as integers makes the distance computation panic,
  and the batch handler with it; so does a coastline whose bounds lack a field.
\<close>

lemma haversine_same_point: "haversineDistance lat lon lat lon = 0"
  by (simp add: haversineDistance_def atan2_def)


lemma no_land_polygons:
  "isPointOnLand coastStore lat lon = (Ok False, [''land_polygons''])"
  "isPointOnLand wholeNumberCoastStore lat lon = (Ok False, [''land_polygons''])"
  by (simp_all add: isPointOnLand_def coastStore_def wholeNumberCoastStore_def sampleStore_def
      getAll_def)


lemma coast_panic:
  "calculateDistanceToCoast wholeNumberCoastStore 1 1 = (Panic, [''coastlines''])"
  by (simp add: calculateDistanceToCoast_def wholeNumberCoastStore_def wholeNumberCoastDoc_def
      sample_defs)

lemma batch_panic:
  "batchClassifyHandler wholeNumberCoastStore (Some [\<lparr>Lat = 1, Lon = 1\<rparr>]) =
     (HttpPanic, [''land_polygons'', ''coastlines''])"
  by (simp add: batchClassifyHandler_def classifyEntry_def classifyPoint_def coast_panic
      no_land_polygons)

lemma missing_bound_panic:
  "batchClassifyHandler missingBoundCoastStore (Some [\<lparr>Lat = 1, Lon = 1\<rparr>]) =
     (HttpPanic, [''land_polygons'', ''coastlines''])"
proof -
  have land: "isPointOnLand missingBoundCoastStore 1 1 = (Ok False, [''land_polygons''])"
    by (simp add: isPointOnLand_def missingBoundCoastStore_def sampleStore_def getAll_def)
  have coast: "calculateDistanceToCoast missingBoundCoastStore 1 1 = (Panic, [''coastlines''])"
    by (simp add: calculateDistanceToCoast_def missingBoundCoastStore_def
        missingBoundCoastDoc_def sample_defs)
  show ?thesis
    by (simp add: batchClassifyHandler_def classifyEntry_def classifyPoint_def land coast)
qed

lemma triangle_parse:
  "tableUnmarshal triangleJSON = Some (Polygon [[(0, 0), (10, 0), (0, 10), (0, 0)]])"
  by (simp add: tableUnmarshal_def unitSquareJSON_def twoSquaresJSON_def triangleJSON_def)

lemma triangle_nonempty: "triangleJSON \<noteq> []"
  by (simp add: triangleJSON_def)

lemma triangle_outside: "\<not> isPointInGeometry sampleLibrary 9 9 triangleJSON"
  by (simp add: isPointInGeometry_def sampleLibrary_def triangle_parse triangle_nonempty
      evenOddContains_def edgeCrosses_def)

lemma triangle_inside: "isPointInGeometry sampleLibrary 1 1 triangleJSON"
  by (simp add: isPointInGeometry_def sampleLibrary_def triangle_parse triangle_nonempty
      evenOddContains_def edgeCrosses_def)

section \<open>The land test\<close>

text \<open>
  Claim C2 says that the land test of the coastline classifier returns true if and only
  if the geometry of some active land polygon contains the point. The function
  \<open>isPointOnLand\<close> never reads the geometry: it returns true as soon as the bounds of a
  document contain the point. With one active land polygon, the triangle with corners
  (0,0), (10,0) and (0,10) and its exact bounding rectangle, the point at latitude 9 and
  longitude 9 lies in the rectangle and outside the triangle, and is classified as land.
\<close>

theorem C2_bounds_short_circuit:
  "fst (isPointOnLand landStore 9 9) = Ok True \<and>
   contents landStore ''land_polygons'' = [triangleDoc] \<and>
   assertString (index triangleDoc ''geometry'') = Some triangleJSON \<and>
   \<not> isPointInGeometry sampleLibrary 9 9 triangleJSON"
proof -
  have "contents landStore ''land_polygons'' = [triangleDoc]"
    by (simp add: landStore_def sampleStore_def)
  moreover have "assertString (index triangleDoc ''geometry'') = Some triangleJSON"
    by (simp add: triangleDoc_def geoDoc_def index_def)
  ultimately show ?thesis
    using land_by_bounds triangle_outside by simp
qed

section \<open>The default distance of the classifier\<close>

text \<open>
  Claim C9. In \<open>classifyPoint\<close>, when the land test returns a verdict and the distance
  to the coast returns an error, the error is dropped: the result is the land verdict
  with the distance 10.0 and no error. So when \<open>classifyPoint\<close> returns an error, the
  land test has returned an error too (the store error, its only one), and the error
  is the one of the distance computation.
\<close>

theorem C9_default_distance:
  "(fst (isPointOnLand st lat lon) = Ok isLand \<and>
    fst (calculateDistanceToCoast st lat lon) = Err e
      \<longrightarrow> fst (classifyPoint st lat lon) = Ok (isLand, 10)) \<and>
   (fst (classifyPoint st lat lon) = Err e
      \<longrightarrow> fst (isPointOnLand st lat lon) = Err StoreError \<and>
          fst (calculateDistanceToCoast st lat lon) = Err e)"
  by (auto simp: classifyPoint_def isPointOnLand_def split: prod.splits outcome.splits option.splits)

theorem C9_default_distance_witness:
  "fst (isPointOnLand landStore 9 9) = Ok True \<and>
   fst (calculateDistanceToCoast landStore 9 9) = Err NoCoastlinesFound \<and>
   fst (classifyPoint landStore 9 9) = Ok (True, 10) \<and>
   fst (classifyPoint landDownStore 9 9) = Err NoCoastlinesFound \<and>
   fst (isPointOnLand landDownStore 9 9) = Err StoreError"
proof -
  have a: "fst (isPointOnLand landStore 9 9) = Ok True"
    and b: "fst (calculateDistanceToCoast landStore 9 9) = Err NoCoastlinesFound"
    by (simp_all add: land_by_bounds no_coast_land)
  have c: "fst (classifyPoint landDownStore 9 9) = Err NoCoastlinesFound"
    by (simp add: classifyPoint_def land_down no_coast_land_down)
  from C9_default_distance [of landStore 9 9 True NoCoastlinesFound] a b
  have d: "fst (classifyPoint landStore 9 9) = Ok (True, 10)" by simp
  from C9_default_distance [of landDownStore 9 9 True NoCoastlinesFound] c
  have e: "fst (isPointOnLand landDownStore 9 9) = Err StoreError" by simp
  from a b c d e show ?thesis by simp
qed

section \<open>The batch endpoint of the coastline classifier\<close>

lemma classifyLoop_length:
  "classifyLoop st points = (Some results, t) \<Longrightarrow> length results = length points"
  by (induction points arbitrary: results t) (auto split: prod.splits option.splits)

lemma classifyLoop_nth:
  "classifyLoop st points = (Some results, t) \<Longrightarrow> i < length points
     \<Longrightarrow> fst (classifyEntry st (points ! i)) = Some (results ! i)"
proof (induction points arbitrary: results t i)
  case Nil
  then show ?case by simp
next
  case (Cons p ps)
  then show ?case
    by (cases i) (auto split: prod.splits option.splits)
qed

text \<open>
  With well-typed coastline bounds no classification panics, and the loop of the batch
  handler returns one entry for every point.
\<close>

lemma coastLoop_typed:
  "list_all floatBounds docs \<Longrightarrow> coastLoop lat lon docs m c \<noteq> None"
  by (induction docs arbitrary: m c)
    (auto simp: floatBounds_def Let_def split: option.splits)

lemma distance_no_panic:
  "coastlinesWellTyped st \<Longrightarrow> fst (calculateDistanceToCoast st lat lon) \<noteq> Panic"
  using coastLoop_typed [of "filter (whereTrue [''is_active'']) (contents st ''coastlines'')"
      lat lon 99999999 None]
  by (auto simp: calculateDistanceToCoast_def coastlinesWellTyped_def getAll_def
      split: option.splits prod.splits)

lemma land_no_panic: "fst (isPointOnLand st lat lon) \<noteq> Panic"
  by (simp add: isPointOnLand_def split: option.splits)

lemma classifyPoint_no_panic:
  "coastlinesWellTyped st \<Longrightarrow> fst (classifyPoint st lat lon) \<noteq> Panic"
  using distance_no_panic [of st lat lon] land_no_panic [of st lat lon]
  by (auto simp: classifyPoint_def split: prod.splits outcome.splits)

lemma classifyEntry_no_panic:
  "coastlinesWellTyped st \<Longrightarrow> fst (classifyEntry st p) \<noteq> None"
  using classifyPoint_no_panic [of st "Lat p" "Lon p"]
  by (auto simp: classifyEntry_def split: prod.splits outcome.splits)

lemma classifyLoop_no_panic:
  "coastlinesWellTyped st \<Longrightarrow> \<exists>results t. classifyLoop st points = (Some results, t)"
proof (induction points)
  case Nil
  then show ?case by simp
next
  case (Cons p ps)
  from Cons.prems have "fst (classifyEntry st p) \<noteq> None"
    by (rule classifyEntry_no_panic)
  then obtain r t1 where "classifyEntry st p = (Some r, t1)"
    by (cases "classifyEntry st p") auto
  with Cons show ?case by auto
qed


lemma entry_of_point:
  "fst (classifyEntry st p) = Some r \<Longrightarrow>
     (if Lat p < -90 \<or> Lat p > 90 \<or> Lon p < -180 \<or> Lon p > 180
      then r = [(''error'', DString ''Invalid coordinates'')]
      else
        fst (classifyPoint st (Lat p) (Lon p)) \<noteq> Panic \<and>
        (\<forall>e. fst (classifyPoint st (Lat p) (Lon p)) = Err e \<longrightarrow>
           r = [(''error'', DString ''Classification failed'')]) \<and>
        (\<forall>isLand d.
           fst (classifyPoint st (Lat p) (Lon p)) = Ok (isLand, d) \<longrightarrow>
           r = [(''type'', DString (if isLand then ''land'' else ''ocean'')),
                (''distance_to_coast_km'', DFloat d),
                (''grid_resolution'', DString (determineGridResolution isLand d))]))"
  by (auto simp: classifyEntry_def split: prod.splits outcome.splits if_splits)

lemma batch_entries:
  assumes typed: "coastlinesWellTyped st"
    and n: "0 < length points" "length points \<le> 1000"
  shows "\<exists>results.
      fst (batchClassifyHandler st (Some points)) =
        HttpOK (DMap [(''results'', DSlice (map DMap results)),
                      (''count'', DInt (int (length points)))]) \<and>
      length results = length points \<and>
      (\<forall>i<length points. fst (classifyEntry st (points ! i)) = Some (results ! i))"
proof -
  obtain results t where l: "classifyLoop st points = (Some results, t)"
    using classifyLoop_no_panic [OF typed] by blast
  then have len: "length results = length points"
    by (rule classifyLoop_length)
  have resp: "fst (batchClassifyHandler st (Some points)) =
        HttpOK (DMap [(''results'', DSlice (map DMap results)),
                      (''count'', DInt (int (length points)))])"
    using n l len by (auto simp: batchClassifyHandler_def)
  have "\<forall>i<length points. fst (classifyEntry st (points ! i)) = Some (results ! i)"
    using classifyLoop_nth [OF l] by blast
  with resp len show ?thesis by blast
qed

lemma typed_samples:
  "coastlinesWellTyped coastStore" "coastlinesWellTyped coastNoLandStore"
  "coastlinesWellTyped emptyStore" "\<not> coastlinesWellTyped wholeNumberCoastStore"
  by (simp_all add: coastlinesWellTyped_def floatBounds_def coastStore_def coastNoLandStore_def
      emptyStore_def wholeNumberCoastStore_def wholeNumberCoastDoc_def coastDoc_def
      sampleStore_def boundsDoc_def whereTrue_def index_def)





section \<open>The bulk enrichment endpoint\<close>

lemma boundaryLoop_mock:
  "boundaryLoop (getMockBoundariesForPoint lat lon) tags res \<noteq> None"
  by (simp add: getMockBoundariesForPoint_def mockBoundary_def index_def)

lemma enrichLoop_total:
  "\<exists>results. enrichLoop points = Some results \<and>
     map EnrichedSquareID results = map SquareID points"
proof (induction points)
  case Nil
  then show ?case by simp
next
  case (Cons p ps)
  obtain tags res where
    "boundaryLoop (getMockBoundariesForPoint (Lat p) (Lon p)) [] ''1km'' = Some (tags, res)"
    using boundaryLoop_mock [of "Lat p" "Lon p" "[]" "''1km''"] by auto
  with Cons show ?case by auto
qed

text \<open>
  Claim C4. For every list of points sent to the bulk enrichment endpoint, the list of
  results has the same length, and the result at every index carries the square id of
  the point at that index.
\<close>

theorem C4_order_preserved:
  "\<exists>results. batchLookupBoundariesHandler (Some points) = HttpOK results \<and>
     length results = length points \<and>
     (\<forall>i<length points. EnrichedSquareID (results ! i) = SquareID (points ! i))"
proof -
  obtain results where r: "enrichLoop points = Some results"
    and m: "map EnrichedSquareID results = map SquareID points"
    using enrichLoop_total by blast
  from m have len: "length results = length points"
    using map_eq_imp_length_eq by blast
  have "\<forall>i<length points. EnrichedSquareID (results ! i) = SquareID (points ! i)"
  proof (intro allI impI)
    fix i assume i: "i < length points"
    with len have "map EnrichedSquareID results ! i = EnrichedSquareID (results ! i)" by simp
    moreover from i have "map SquareID points ! i = SquareID (points ! i)" by simp
    ultimately show "EnrichedSquareID (results ! i) = SquareID (points ! i)"
      using m by simp
  qed
  with r len show ?thesis by (simp add: batchLookupBoundariesHandler_def)
qed

theorem C4_order_preserved_witness:
  "\<exists>results. batchLookupBoundariesHandler (Some [squareA, squareB]) = HttpOK results \<and>
     length results = 2 \<and>
     EnrichedSquareID (results ! 0) = ''sq_a'' \<and>
     EnrichedSquareID (results ! 1) = ''sq_b''"
proof -
  from C4_order_preserved [of "[squareA, squareB]"]
  obtain results where a: "batchLookupBoundariesHandler (Some [squareA, squareB]) = HttpOK results"
    and b: "length results = 2"
    and c: "\<forall>i<2. EnrichedSquareID (results ! i) = SquareID ([squareA, squareB] ! i)"
    by auto
  from c have "EnrichedSquareID (results ! 0) = ''sq_a''"
    by (simp add: squareA_def)
  moreover from c have "EnrichedSquareID (results ! 1) = SquareID ([squareA, squareB] ! 1)"
    by (metis one_less_numeral_iff semiring_norm(76))
  then have "EnrichedSquareID (results ! 1) = ''sq_b''"
    by (simp add: squareB_def)
  ultimately show ?thesis using a b by blast
qed

text \<open>The two points of the spec's scenario, evaluated.\<close>

lemma batch_lookup_sample:
  "batchLookupBoundariesHandler (Some [squareA, squareB]) =
     HttpOK [\<lparr>EnrichedSquareID = ''sq_a'',
              BoundaryTags = [''united states'', ''new york'', ''new york city'', ''manhattan''],
              Resolution = ''100m'',
              LandmarksNearby = [''statue_of_liberty'', ''empire_state_building'', ''central_park'']\<rparr>,
             \<lparr>EnrichedSquareID = ''sq_b'', BoundaryTags = [], Resolution = ''1km'',
              LandmarksNearby = []\<rparr>]"
  by code_simp

section \<open>Partial results of the batch endpoints\<close>

lemma classifyPoint_empty:
  "classifyPoint emptyStore lat lon = (Ok (False, 10), [''land_polygons'', ''coastlines''])"
  by (simp add: classifyPoint_def isPointOnLand_def calculateDistanceToCoast_def emptyStore_def
      sampleStore_def getAll_def)

lemma mixed_batch_response:
  "batchClassifyHandler emptyStore (Some mixedBatch) =
     (HttpOK (DMap [(''results'',
                     DSlice [DMap [(''type'', DString ''ocean''),
                                   (''distance_to_coast_km'', DFloat 10),
                                   (''grid_resolution'', DString ''10x10km'')],
                             DMap [(''error'', DString ''Invalid coordinates'')]]),
                    (''count'', DInt 2)]),
      [''land_polygons'', ''coastlines''])"
  by (simp add: batchClassifyHandler_def mixedBatch_def classifyEntry_def classifyPoint_empty
      determineGridResolution_def)

text \<open>
  Claim C3 says that a batch endpoint answers all or nothing. The batch classifier does
  not: with one point at the origin and one point at latitude 91, it answers with
  status 200 and two entries, the result of the first point and an error entry for the
  second.
\<close>

theorem C3_partial_results:
  "fst (batchClassifyHandler emptyStore (Some mixedBatch)) =
     HttpOK (DMap [(''results'',
                    DSlice [DMap [(''type'', DString ''ocean''),
                                  (''distance_to_coast_km'', DFloat 10),
                                  (''grid_resolution'', DString ''10x10km'')],
                            DMap [(''error'', DString ''Invalid coordinates'')]]),
                   (''count'', DInt 2)])"
  by (simp add: mixed_batch_response)

lemma no_land_classify:
  "classifyPoint coastNoLandStore 5 5 = (Ok (True, 0), [''land_polygons'', ''coastlines''])"
  "classifyPoint coastNoLandStore 50 50 =
     (Err NoCoastlinesFound, [''land_polygons'', ''coastlines''])"
  by (simp_all add: classifyPoint_def isPointOnLand_def calculateDistanceToCoast_def
      coastNoLandStore_def coastDoc_def sample_defs haversine_same_point)

lemma nth_three: "(\<forall>i<3. P (i::nat)) = (P 0 \<and> P 1 \<and> P 2)"
proof -
  have "\<And>i::nat. (i < 3) = (i = 0 \<or> i = 1 \<or> i = 2)" by auto
  then show ?thesis by auto
qed

lemma three_entries: "length xs = 3 \<Longrightarrow> xs = [xs ! 0, xs ! Suc 0, xs ! 2]"
  by (auto simp: list_eq_iff_nth_eq nth_Cons' nth_three)

text \<open>
  Claim C3, as amended. The bulk enrichment endpoint answers all or nothing: status 400
  for a body that does not decode, and otherwise one enrichment for every point. The
  batch classifier does not: when the bounds of the active coastlines are stored as
  \<open>float64\<close> values, a body of 1 to 1000 points is answered with status 200 and one
  entry per point, in input order. The entry of a point with coordinates out of range
  is the error entry "Invalid coordinates", the entry of a point whose classification
  returns an error is the error entry "Classification failed", and the entry of any
  other point is its result.
\<close>

theorem C3_batch_outcomes:
  "(body = None \<and> batchLookupBoundariesHandler body = HttpError 400 ''Invalid request body'' \<or>
    (\<exists>pts results. body = Some pts \<and> batchLookupBoundariesHandler body = HttpOK results \<and>
       length results = length pts)) \<and>
   (coastlinesWellTyped st \<and> 0 < length points \<and> length points \<le> 1000 \<longrightarrow>
      (\<exists>results.
         fst (batchClassifyHandler st (Some points)) =
           HttpOK (DMap [(''results'', DSlice (map DMap results)),
                         (''count'', DInt (int (length points)))]) \<and>
         length results = length points \<and>
         (\<forall>i<length points.
            (if Lat (points ! i) < -90 \<or> Lat (points ! i) > 90 \<or>
                Lon (points ! i) < -180 \<or> Lon (points ! i) > 180
             then results ! i = [(''error'', DString ''Invalid coordinates'')]
             else
               fst (classifyPoint st (Lat (points ! i)) (Lon (points ! i))) \<noteq> Panic \<and>
               (\<forall>e. fst (classifyPoint st (Lat (points ! i)) (Lon (points ! i))) = Err e \<longrightarrow>
                  results ! i = [(''error'', DString ''Classification failed'')]) \<and>
               (\<forall>isLand d.
                  fst (classifyPoint st (Lat (points ! i)) (Lon (points ! i))) = Ok (isLand, d) \<longrightarrow>
                  results ! i =
                    [(''type'', DString (if isLand then ''land'' else ''ocean'')),
                     (''distance_to_coast_km'', DFloat d),
                     (''grid_resolution'', DString (determineGridResolution isLand d))])))))"
proof (intro conjI impI)
  show "body = None \<and> batchLookupBoundariesHandler body = HttpError 400 ''Invalid request body'' \<or>
    (\<exists>pts results. body = Some pts \<and> batchLookupBoundariesHandler body = HttpOK results \<and>
       length results = length pts)"
  proof (cases body)
    case None
    then show ?thesis by (simp add: batchLookupBoundariesHandler_def StatusBadRequest_def)
  next
    case (Some pts)
    obtain results where "enrichLoop pts = Some results"
      and "map EnrichedSquareID results = map SquareID pts"
      using enrichLoop_total by blast
    moreover from this have "length results = length pts"
      using map_eq_imp_length_eq by blast
    ultimately show ?thesis using Some by (simp add: batchLookupBoundariesHandler_def)
  qed
next
  assume h: "coastlinesWellTyped st \<and> 0 < length points \<and> length points \<le> 1000"
  then obtain results where
    resp: "fst (batchClassifyHandler st (Some points)) =
        HttpOK (DMap [(''results'', DSlice (map DMap results)),
                      (''count'', DInt (int (length points)))])"
    and len: "length results = length points"
    and each: "\<forall>i<length points. fst (classifyEntry st (points ! i)) = Some (results ! i)"
    using batch_entries [of st points] by blast
  have "\<forall>i<length points.
            (if Lat (points ! i) < -90 \<or> Lat (points ! i) > 90 \<or>
                Lon (points ! i) < -180 \<or> Lon (points ! i) > 180
             then results ! i = [(''error'', DString ''Invalid coordinates'')]
             else
               fst (classifyPoint st (Lat (points ! i)) (Lon (points ! i))) \<noteq> Panic \<and>
               (\<forall>e. fst (classifyPoint st (Lat (points ! i)) (Lon (points ! i))) = Err e \<longrightarrow>
                  results ! i = [(''error'', DString ''Classification failed'')]) \<and>
               (\<forall>isLand d.
                  fst (classifyPoint st (Lat (points ! i)) (Lon (points ! i))) = Ok (isLand, d) \<longrightarrow>
                  results ! i =
                    [(''type'', DString (if isLand then ''land'' else ''ocean'')),
                     (''distance_to_coast_km'', DFloat d),
                     (''grid_resolution'', DString (determineGridResolution isLand d))]))"
  proof (intro allI impI)
    fix i assume "i < length points"
    with each have "fst (classifyEntry st (points ! i)) = Some (results ! i)" by simp
    then show "if Lat (points ! i) < -90 \<or> Lat (points ! i) > 90 \<or>
                Lon (points ! i) < -180 \<or> Lon (points ! i) > 180
             then results ! i = [(''error'', DString ''Invalid coordinates'')]
             else
               fst (classifyPoint st (Lat (points ! i)) (Lon (points ! i))) \<noteq> Panic \<and>
               (\<forall>e. fst (classifyPoint st (Lat (points ! i)) (Lon (points ! i))) = Err e \<longrightarrow>
                  results ! i = [(''error'', DString ''Classification failed'')]) \<and>
               (\<forall>isLand d.
                  fst (classifyPoint st (Lat (points ! i)) (Lon (points ! i))) = Ok (isLand, d) \<longrightarrow>
                  results ! i =
                    [(''type'', DString (if isLand then ''land'' else ''ocean'')),
                     (''distance_to_coast_km'', DFloat d),
                     (''grid_resolution'', DString (determineGridResolution isLand d))])"
      by (rule entry_of_point)
  qed
  with resp len show "\<exists>results.
         fst (batchClassifyHandler st (Some points)) =
           HttpOK (DMap [(''results'', DSlice (map DMap results)),
                         (''count'', DInt (int (length points)))]) \<and>
         length results = length points \<and>
         (\<forall>i<length points.
            (if Lat (points ! i) < -90 \<or> Lat (points ! i) > 90 \<or>
                Lon (points ! i) < -180 \<or> Lon (points ! i) > 180
             then results ! i = [(''error'', DString ''Invalid coordinates'')]
             else
               fst (classifyPoint st (Lat (points ! i)) (Lon (points ! i))) \<noteq> Panic \<and>
               (\<forall>e. fst (classifyPoint st (Lat (points ! i)) (Lon (points ! i))) = Err e \<longrightarrow>
                  results ! i = [(''error'', DString ''Classification failed'')]) \<and>
               (\<forall>isLand d.
                  fst (classifyPoint st (Lat (points ! i)) (Lon (points ! i))) = Ok (isLand, d) \<longrightarrow>
                  results ! i =
                    [(''type'', DString (if isLand then ''land'' else ''ocean'')),
                     (''distance_to_coast_km'', DFloat d),
                     (''grid_resolution'', DString (determineGridResolution isLand d))])))"
    by blast
qed

theorem C3_batch_outcomes_witness:
  "batchLookupBoundariesHandler None = HttpError 400 ''Invalid request body'' \<and>
   fst (batchClassifyHandler coastNoLandStore (Some threeKinds)) =
     HttpOK (DMap [(''results'',
                    DSlice [DMap [(''type'', DString ''land''),
                                  (''distance_to_coast_km'', DFloat 0),
                                  (''grid_resolution'', DString ''1x1km'')],
                            DMap [(''error'', DString ''Classification failed'')],
                            DMap [(''error'', DString ''Invalid coordinates'')]]),
                   (''count'', DInt 3)])"
proof -
  note inst = C3_batch_outcomes [of None coastNoLandStore threeKinds]
  have len: "length threeKinds = 3" by (simp add: threeKinds_def)
  from inst have a: "batchLookupBoundariesHandler None = HttpError 400 ''Invalid request body''"
    by simp
  from inst len typed_samples(2) obtain results where
    r: "fst (batchClassifyHandler coastNoLandStore (Some threeKinds)) =
          HttpOK (DMap [(''results'', DSlice (map DMap results)), (''count'', DInt 3)])"
    and l: "length results = 3"
    and e: "\<forall>i<3.
            (if Lat (threeKinds ! i) < -90 \<or> Lat (threeKinds ! i) > 90 \<or>
                Lon (threeKinds ! i) < -180 \<or> Lon (threeKinds ! i) > 180
             then results ! i = [(''error'', DString ''Invalid coordinates'')]
             else
               fst (classifyPoint coastNoLandStore (Lat (threeKinds ! i)) (Lon (threeKinds ! i)))
                 \<noteq> Panic \<and>
               (\<forall>e. fst (classifyPoint coastNoLandStore (Lat (threeKinds ! i))
                          (Lon (threeKinds ! i))) = Err e \<longrightarrow>
                  results ! i = [(''error'', DString ''Classification failed'')]) \<and>
               (\<forall>isLand d.
                  fst (classifyPoint coastNoLandStore (Lat (threeKinds ! i))
                        (Lon (threeKinds ! i))) = Ok (isLand, d) \<longrightarrow>
                  results ! i =
                    [(''type'', DString (if isLand then ''land'' else ''ocean'')),
                     (''distance_to_coast_km'', DFloat d),
                     (''grid_resolution'', DString (determineGridResolution isLand d))]))"
    by auto
  have m: "threeKinds ! 0 = \<lparr>Lat = 5, Lon = 5\<rparr>" "threeKinds ! Suc 0 = \<lparr>Lat = 50, Lon = 50\<rparr>"
    "threeKinds ! 2 = \<lparr>Lat = 91, Lon = 0\<rparr>"
    by (simp_all add: threeKinds_def)
  have e0: "results ! 0 = [(''type'', DString ''land''),
                           (''distance_to_coast_km'', DFloat 0),
                           (''grid_resolution'', DString ''1x1km'')]"
    using e [THEN spec, of 0] by (auto simp: m no_land_classify determineGridResolution_def)
  have e1: "results ! Suc 0 = [(''error'', DString ''Classification failed'')]"
    using e [THEN spec, of "Suc 0"] by (auto simp: m no_land_classify)
  have e2: "results ! 2 = [(''error'', DString ''Invalid coordinates'')]"
    using e [THEN spec, of 2] by (simp add: m)
  have "results = [results ! 0, results ! Suc 0, results ! 2]"
    using l by (rule three_entries)
  with e0 e1 e2 have "map DMap results =
      [DMap [(''type'', DString ''land''),
             (''distance_to_coast_km'', DFloat 0),
             (''grid_resolution'', DString ''1x1km'')],
       DMap [(''error'', DString ''Classification failed'')],
       DMap [(''error'', DString ''Invalid coordinates'')]]"
    by (metis list.simps(8) list.simps(9))
  with a r show ?thesis by simp
qed

section \<open>The two-stage resolver\<close>

lemma containingLoop_filter:
  "containingLoop L lat lon docs = filter (geometryContains L lat lon) docs"
  by (induction docs) (auto simp: geometryContains_def isPointInGeometry_def split: option.splits)

lemma boundsQuery_iff:
  "boundsQuery lat lon d = (whereTrue [''is_active''] d \<and> boundsContain lat lon d)"
  by (simp add: boundsQuery_def boundsContain_def)

lemma findContaining_available:
  "\<not> unavailable st T \<Longrightarrow>
     fst (findContainingEntities L st T lat lon) =
       filter (\<lambda>d. whereTrue [''is_active''] d \<and> boundsContain lat lon d \<and>
                   geometryContains L lat lon d) (contents st T)"
  by (simp add: findContainingEntities_def getAll_def containingLoop_filter boundsQuery_iff
      conj_commute conj_left_commute)

lemma findContaining_unavailable:
  "unavailable st T \<Longrightarrow> findContainingEntities L st T lat lon = ([], [T])"
  by (simp add: findContainingEntities_def getAll_def)

text \<open>
  Claim C1, as amended. When the bounds query of the tier succeeds and the bounds of
  every active document whose geometry contains the point contain the point too (the
  bounds are a conservative over-approximation of the geometry), the set of entities
  that the two-stage resolver returns is the set of the active documents of the tier
  whose geometry contains the point. When the query fails the resolver returns the empty
  list. In every case the resolver returns only active documents whose geometry contains
  the point: the bounds stage removes documents and adds none.
\<close>

theorem C1_two_stage:
  "(\<not> unavailable st T \<and>
    (\<forall>d\<in>set (contents st T).
       whereTrue [''is_active''] d \<and> geometryContains L lat lon d \<longrightarrow> boundsContain lat lon d)
      \<longrightarrow> set (fst (findContainingEntities L st T lat lon)) =
            specContaining L (contents st T) lat lon) \<and>
   (unavailable st T \<longrightarrow> fst (findContainingEntities L st T lat lon) = []) \<and>
   set (fst (findContainingEntities L st T lat lon)) \<subseteq> specContaining L (contents st T) lat lon"
proof (intro conjI impI)
  assume h: "\<not> unavailable st T \<and>
    (\<forall>d\<in>set (contents st T).
       whereTrue [''is_active''] d \<and> geometryContains L lat lon d \<longrightarrow> boundsContain lat lon d)"
  then show "set (fst (findContainingEntities L st T lat lon)) =
            specContaining L (contents st T) lat lon"
    by (auto simp: findContaining_available specContaining_def)
next
  assume "unavailable st T"
  then show "fst (findContainingEntities L st T lat lon) = []"
    by (simp add: findContaining_unavailable)
next
  show "set (fst (findContainingEntities L st T lat lon)) \<subseteq> specContaining L (contents st T) lat lon"
  proof (cases "unavailable st T")
    case True
    then show ?thesis by (simp add: findContaining_unavailable)
  next
    case False
    then show ?thesis by (auto simp: findContaining_available specContaining_def)
  qed
qed

lemmas doc_defs = geoDoc_def boundsDoc_def index_def whereTrue_def whereLe_def whereGe_def

lemma unitSquare_parse:
  "tableUnmarshal unitSquareJSON = Some (Polygon [[(0, 0), (1, 0), (1, 1), (0, 1), (0, 0)]])"
  by (simp add: tableUnmarshal_def)

lemma twoSquares_parse:
  "tableUnmarshal twoSquaresJSON =
     Some (MultiPolygon [[[(0, 0), (1, 0), (1, 1), (0, 1), (0, 0)]],
                         [[(4, 4), (6, 4), (6, 6), (4, 6), (4, 4)]]])"
  by (simp add: tableUnmarshal_def unitSquareJSON_def twoSquaresJSON_def)

lemma triangle_contains_2: "geometryContains sampleLibrary 2 2 triangleDoc"
  by (simp add: geometryContains_def triangleDoc_def geoDoc_def index_def isPointInGeometry_def
      sampleLibrary_def triangle_parse triangle_nonempty evenOddContains_def edgeCrosses_def)

lemma triangle_contains_1: "geometryContains sampleLibrary 1 1 triangleDoc"
  by (simp add: geometryContains_def triangleDoc_def geoDoc_def index_def triangle_inside)

lemma narrow_contains_1: "geometryContains sampleLibrary 1 1 narrowDoc"
  by (simp add: geometryContains_def narrowDoc_def geoDoc_def index_def triangle_inside)

lemma square_not_contains_2: "\<not> geometryContains sampleLibrary 2 2 squareDoc"
  by (simp add: geometryContains_def squareDoc_def geoDoc_def index_def isPointInGeometry_def
      sampleLibrary_def unitSquare_parse evenOddContains_def edgeCrosses_def)

lemma islands_not_contains_2: "\<not> geometryContains sampleLibrary 2 2 islandsDoc"
  by (simp add: geometryContains_def islandsDoc_def geoDoc_def index_def isPointInGeometry_def
      sampleLibrary_def twoSquares_parse evenOddContains_def edgeCrosses_def)

lemma tier_active:
  "whereTrue [''is_active''] triangleDoc" "whereTrue [''is_active''] squareDoc"
  "\<not> whereTrue [''is_active''] retiredDoc" "whereTrue [''is_active''] islandsDoc"
  "whereTrue [''is_active''] narrowDoc"
  by (simp_all add: triangleDoc_def squareDoc_def retiredDoc_def islandsDoc_def narrowDoc_def
      doc_defs)

lemma tier_bounds:
  "boundsContain 2 2 triangleDoc" "\<not> boundsContain 2 2 squareDoc"
  "boundsContain 2 2 islandsDoc" "\<not> boundsContain 1 1 narrowDoc"
  by (simp_all add: boundsContain_def triangleDoc_def squareDoc_def islandsDoc_def narrowDoc_def
      doc_defs)

lemma tier_contents:
  "contents tierStore ''countries'' = [triangleDoc, squareDoc, retiredDoc, islandsDoc]"
  "\<not> unavailable tierStore ''countries''"
  "contents tierDownStore ''countries'' = [triangleDoc]"
  "unavailable tierDownStore ''countries''"
  "contents narrowStore ''countries'' = [narrowDoc]"
  "\<not> unavailable narrowStore ''countries''"
  by (simp_all add: tierStore_def tierDownStore_def narrowStore_def sampleStore_def)

lemma tier_result:
  "fst (findContainingEntities sampleLibrary tierStore ''countries'' 2 2) = [triangleDoc]"
  by (simp add: findContaining_available tier_contents tier_active tier_bounds
      triangle_contains_2 square_not_contains_2 islands_not_contains_2)

text \<open>
  Claim C1 says that the resolver returns the active documents whose geometry contains
  the point, for every point and every tier. Two tiers where it returns nothing although
  an active document contains the point at latitude 1 and longitude 1: a tier whose
  query fails (the error is logged and the empty list returned), and a tier whose
  document has bounds smaller than its geometry.
\<close>

theorem C1_missing_matches:
  "fst (findContainingEntities sampleLibrary tierDownStore ''countries'' 1 1) = [] \<and>
   triangleDoc \<in> specContaining sampleLibrary (contents tierDownStore ''countries'') 1 1 \<and>
   fst (findContainingEntities sampleLibrary narrowStore ''countries'' 1 1) = [] \<and>
   narrowDoc \<in> specContaining sampleLibrary (contents narrowStore ''countries'') 1 1"
  by (simp add: findContaining_unavailable findContaining_available specContaining_def
      tier_contents tier_active tier_bounds triangle_contains_1 narrow_contains_1)

theorem C1_two_stage_witness:
  "set (fst (findContainingEntities sampleLibrary tierStore ''countries'' 2 2)) =
     specContaining sampleLibrary (contents tierStore ''countries'') 2 2 \<and>
   fst (findContainingEntities sampleLibrary tierStore ''countries'' 2 2) = [triangleDoc] \<and>
   fst (findContainingEntities sampleLibrary tierDownStore ''countries'' 1 1) = []"
proof -
  have h: "\<forall>d\<in>set (contents tierStore ''countries'').
       whereTrue [''is_active''] d \<and> geometryContains sampleLibrary 2 2 d \<longrightarrow> boundsContain 2 2 d"
    by (simp add: tier_contents tier_active tier_bounds square_not_contains_2)
  from C1_two_stage [of tierStore "''countries''" sampleLibrary 2 2] h tier_contents(2)
  have a: "set (fst (findContainingEntities sampleLibrary tierStore ''countries'' 2 2)) =
     specContaining sampleLibrary (contents tierStore ''countries'') 2 2"
    by blast
  from C1_two_stage [of tierDownStore "''countries''" sampleLibrary 1 1] tier_contents(4)
  have b: "fst (findContainingEntities sampleLibrary tierDownStore ''countries'' 1 1) = []"
    by blast
  from a b tier_result show ?thesis by simp
qed

section \<open>Coordinates out of range\<close>

lemma findContaining_trace: "snd (findContainingEntities L st T lat lon) = [T]"
  by (simp add: findContainingEntities_def split: option.splits)

text \<open>
  Claim C6 says that the spatial resolver rejects a latitude outside [-90, 90] or a
  longitude outside [-180, 180] with status 400 and resolves nothing. The handler
  \<open>getBoundariesContainingHandler\<close> has no range test: whenever both parameters parse,
  it queries the four tiers and answers with status 200. The request with \<open>lat=91\<close>
  and \<open>lon=0\<close> is answered so.
\<close>

theorem C6_no_range_check:
  "parseFloat L (queryGet q ''lat'') = Some lat \<and> parseFloat L (queryGet q ''lon'') = Some lon
     \<longrightarrow> (\<exists>body. getBoundariesContainingHandler L st q =
            (HttpOK body, [''sovereign_states'', ''countries'', ''map_units'', ''map_subunits'']))"
proof
  assume p: "parseFloat L (queryGet q ''lat'') = Some lat \<and>
    parseFloat L (queryGet q ''lon'') = Some lon"
  have t: "\<And>T. snd (findContainingEntities L st T lat lon) = [T]"
    by (rule findContaining_trace)
  show "\<exists>body. getBoundariesContainingHandler L st q =
            (HttpOK body, [''sovereign_states'', ''countries'', ''map_units'', ''map_subunits''])"
    using p t [of "''sovereign_states''"] t [of "''countries''"] t [of "''map_units''"]
      t [of "''map_subunits''"]
    by (auto simp: getBoundariesContainingHandler_def Let_def split: prod.splits)
qed

lemma parse_samples:
  "decimalParseFloat ''91'' = Some 91" "decimalParseFloat ''0'' = Some 0"
  "decimalParseFloat ''2.5'' = Some 2.5" "decimalParseFloat ''far'' = None"
  "decimalAtoi ''abc'' = None" "decimalAtoi ''7'' = Some 7"
  by (simp_all add: decimalParseFloat_def decimalAtoi_def signed_def unsignedDecimal_def
      unsignedInt_def digitOf_def)

lemma findContaining_empty: "findContainingEntities L emptyStore T lat lon = ([], [T])"
  by (simp add: findContainingEntities_def getAll_def emptyStore_def sampleStore_def)

theorem C6_no_range_check_witness:
  "getBoundariesContainingHandler sampleLibrary emptyStore northOfPole =
     (HttpOK (DMap [(''lat'', DFloat 91), (''lon'', DFloat 0),
                    (''boundaries'', DSlice []), (''count'', DInt 0)]),
      [''sovereign_states'', ''countries'', ''map_units'', ''map_subunits''])"
proof -
  have lat: "parseFloat sampleLibrary (queryGet northOfPole ''lat'') = Some 91"
    and lon: "parseFloat sampleLibrary (queryGet northOfPole ''lon'') = Some 0"
    by (simp_all add: sampleLibrary_def northOfPole_def queryGet_def parse_samples)
  from C6_no_range_check [of sampleLibrary northOfPole 91 0 emptyStore] lat lon
  obtain body where b: "getBoundariesContainingHandler sampleLibrary emptyStore northOfPole =
      (HttpOK body, [''sovereign_states'', ''countries'', ''map_units'', ''map_subunits''])"
    by blast
  have "fst (getBoundariesContainingHandler sampleLibrary emptyStore northOfPole) =
      HttpOK (DMap [(''lat'', DFloat 91), (''lon'', DFloat 0),
                    (''boundaries'', DSlice []), (''count'', DInt 0)])"
    by (simp add: getBoundariesContainingHandler_def lat lon findContaining_empty
        boundaryGroup_def)
  with b show ?thesis by simp
qed

section \<open>Numeric query parameters\<close>

lemma parse_more:
  "decimalParseFloat ''abc'' = None" "decimalParseFloat '''' = None"
  by (simp_all add: decimalParseFloat_def signed_def unsignedDecimal_def unsignedInt_def
      digitOf_def)

text \<open>
  Claim C10 says that parsing a numeric query parameter never produces an error
  response. The coordinates of \<open>/boundaries/containing\<close> are numeric query parameters
  without a default: a latitude that does not parse, or that is absent, is answered
  with status 400.
\<close>

theorem C10_strict_coordinates:
  "parseFloat sampleLibrary (queryGet badLatitude ''lat'') = None \<and>
   getBoundariesContainingHandler sampleLibrary emptyStore badLatitude =
     (HttpError 400 ''Invalid lat parameter'', []) \<and>
   queryGet [] ''lat'' = '''' \<and>
   getBoundariesContainingHandler sampleLibrary emptyStore [] =
     (HttpError 400 ''Invalid lat parameter'', [])"
  by (simp add: getBoundariesContainingHandler_def sampleLibrary_def badLatitude_def
      queryGet_def parse_more StatusBadRequest_def)

text \<open>
  Claim C10, as amended. The numeric query parameters that have a default (such as
  \<open>limit\<close> and \<open>radius\<close>) are read by \<open>getIntQueryParam\<close> and
  \<open>getFloatQueryParam\<close>, which are total and never produce an error: they return the
  default when the parameter is absent, empty or not parsable, and the parsed number
  otherwise. The coordinates \<open>lat\<close> and \<open>lon\<close> have no default: the handler of
  \<open>/boundaries/containing\<close> rejects a missing or unparsable coordinate with status
  400 and queries nothing.
\<close>

theorem C10_query_defaults:
  "(queryGet q param = '''' \<or> atoi L (queryGet q param) = None
      \<longrightarrow> getIntQueryParam L q param d = d) \<and>
   (queryGet q param \<noteq> '''' \<and> atoi L (queryGet q param) = Some n
      \<longrightarrow> getIntQueryParam L q param d = n) \<and>
   (queryGet q param = '''' \<or> parseFloat L (queryGet q param) = None
      \<longrightarrow> getFloatQueryParam L q param x = x) \<and>
   (queryGet q param \<noteq> '''' \<and> parseFloat L (queryGet q param) = Some y
      \<longrightarrow> getFloatQueryParam L q param x = y) \<and>
   (map_of q param = None \<longrightarrow> queryGet q param = '''') \<and>
   (parseFloat L (queryGet q ''lat'') = None
      \<longrightarrow> getBoundariesContainingHandler L st q =
            (HttpError 400 ''Invalid lat parameter'', [])) \<and>
   (parseFloat L (queryGet q ''lat'') = Some lat \<and> parseFloat L (queryGet q ''lon'') = None
      \<longrightarrow> getBoundariesContainingHandler L st q =
            (HttpError 400 ''Invalid lon parameter'', []))"
  by (auto simp: getIntQueryParam_def getFloatQueryParam_def queryGet_def Let_def
      getBoundariesContainingHandler_def StatusBadRequest_def)

theorem C10_query_defaults_witness:
  "getIntQueryParam sampleLibrary sampleQuery ''limit'' 50 = 50 \<and>
   getIntQueryParam sampleLibrary sampleQuery ''page'' 50 = 7 \<and>
   getIntQueryParam sampleLibrary sampleQuery ''offset'' 50 = 50 \<and>
   getFloatQueryParam sampleLibrary sampleQuery ''radius'' 1000 = 2.5 \<and>
   getFloatQueryParam sampleLibrary [(''radius'', ''far'')] ''radius'' 1000 = 1000 \<and>
   getBoundariesContainingHandler sampleLibrary emptyStore sampleQuery =
     (HttpError 400 ''Invalid lat parameter'', []) \<and>
   getBoundariesContainingHandler sampleLibrary emptyStore [(''lat'', ''2.5'')] =
     (HttpError 400 ''Invalid lon parameter'', [])"
proof -
  have g: "queryGet sampleQuery ''limit'' = ''abc''" "queryGet sampleQuery ''page'' = ''7''"
    "queryGet sampleQuery ''offset'' = ''''" "queryGet sampleQuery ''radius'' = ''2.5''"
    "queryGet [(''radius'', ''far'')] ''radius'' = ''far''"
    "queryGet sampleQuery ''lat'' = ''''"
    "queryGet [(''lat'', ''2.5'')] ''lat'' = ''2.5''" "queryGet [(''lat'', ''2.5'')] ''lon'' = ''''"
    by (simp_all add: sampleQuery_def queryGet_def)
  have p: "atoi sampleLibrary ''abc'' = None" "atoi sampleLibrary ''7'' = Some 7"
    "parseFloat sampleLibrary ''2.5'' = Some 2.5" "parseFloat sampleLibrary ''far'' = None"
    "parseFloat sampleLibrary '''' = None"
    by (simp_all add: sampleLibrary_def parse_samples parse_more)
  from C10_query_defaults [of sampleQuery "''limit''" sampleLibrary 50 0 0 0 emptyStore 0] g p
  have a: "getIntQueryParam sampleLibrary sampleQuery ''limit'' 50 = 50"
    and f: "getBoundariesContainingHandler sampleLibrary emptyStore sampleQuery =
     (HttpError 400 ''Invalid lat parameter'', [])" by simp_all
  from C10_query_defaults [of sampleQuery "''page''" sampleLibrary 50 7 0 0 emptyStore 0] g p
  have b: "getIntQueryParam sampleLibrary sampleQuery ''page'' 50 = 7" by simp
  from C10_query_defaults [of sampleQuery "''offset''" sampleLibrary 50 0 0 0 emptyStore 0] g p
  have c: "getIntQueryParam sampleLibrary sampleQuery ''offset'' 50 = 50" by simp
  from C10_query_defaults [of sampleQuery "''radius''" sampleLibrary 0 0 1000 "2.5" emptyStore 0] g p
  have d: "getFloatQueryParam sampleLibrary sampleQuery ''radius'' 1000 = 2.5" by simp
  from C10_query_defaults [of "[(''radius'', ''far'')]" "''radius''" sampleLibrary 0 0 1000 0
      emptyStore 0] g p
  have e: "getFloatQueryParam sampleLibrary [(''radius'', ''far'')] ''radius'' 1000 = 1000" by simp
  from C10_query_defaults [of "[(''lat'', ''2.5'')]" "''lat''" sampleLibrary 0 0 0 0
      emptyStore "2.5"] g p
  have h: "getBoundariesContainingHandler sampleLibrary emptyStore [(''lat'', ''2.5'')] =
     (HttpError 400 ''Invalid lon parameter'', [])" by simp
  from a b c d e f h show ?thesis by simp
qed

section \<open>The bulk countries catalog, verified\<close>

lemma find_snoc:
  "find P (xs @ [x]) = (case find P xs of Some y \<Rightarrow> Some y | None \<Rightarrow> if P x then Some x else None)"
  by (induction xs) auto

lemma sovereignMapLoop_eq:
  "sovereignMapLoop L docs m k =
     (case lastWithId (List.map_filter (dataToSovereignState L) docs) k of
        Some s \<Rightarrow> Some s
      | None \<Rightarrow> m k)"
proof (induction docs arbitrary: m)
  case Nil
  then show ?case by (simp add: lastWithId_def)
next
  case (Cons doc docs)
  then show ?case
    by (auto simp: lastWithId_def find_snoc split: option.splits)
qed

lemma sovereignLoop_eq:
  "sovereignLoop L docs p =
     (map sovereignEntry (List.map_filter (dataToSovereignState L) docs),
      \<lambda>k. p k \<or> k \<in> set (map ID (List.map_filter (dataToSovereignState L) docs)))"
  by (induction docs arbitrary: p) (auto simp: fun_eq_iff split: option.splits)

lemma countryLoop_eq:
  "(\<And>k. p k = (k \<in> set emitted)) \<Longrightarrow>
     countryLoop L smap docs p =
       map (countryEntry smap) (notYetEmitted emitted (List.map_filter (dataToCountry L) docs))"
proof (induction docs arbitrary: p emitted)
  case Nil
  then show ?case by simp
next
  case (Cons doc docs)
  show ?case
  proof (cases "dataToCountry L doc")
    case None
    with Cons show ?thesis by simp
  next
    case (Some country)
    show ?thesis
    proof (cases "ID country \<in> set emitted")
      case True
      with Some Cons show ?thesis by simp
    next
      case False
      have q: "\<And>k. (p(ID country := True)) k = (k \<in> set (ID country # emitted))"
        using Cons.prems by auto
      have np: "\<not> p (ID country)"
        using Cons.prems False by simp
      have step: "countryLoop L smap docs (p(ID country := True)) =
          map (countryEntry smap)
            (notYetEmitted (ID country # emitted) (List.map_filter (dataToCountry L) docs))"
        by (rule Cons.IH [OF q])
      show ?thesis
        using Some False np by (simp add: step)
    qed
  qed
qed




lemma entry_fields:
  "index (sovereignEntry s) ''id'' = Some (DString (ID s))"
  "index (sovereignEntry s) ''is_territory'' = Some (DBool False)"
  "index (sovereignEntry s) ''sovereign_state_name'' = Some DNil"
  "index (sovereignEntry s) ''type'' = Some (DString ''sovereign_state'')"
  "index (countryEntry smap c) ''id'' = Some (DString (ID c))"
  "index (countryEntry smap c) ''is_territory'' =
     Some (DBool (SovereignStateID c \<noteq> ID c \<and> SovereignStateID c \<noteq> ''''))"
  "index (countryEntry smap c) ''sovereign_state_name'' =
     Some (if SovereignStateID c \<noteq> ID c \<and> SovereignStateID c \<noteq> ''''
           then (case smap (SovereignStateID c) of
                   Some s \<Rightarrow> DString (Name s)
                 | None \<Rightarrow> DNil)
           else DNil)"
  "index (countryEntry smap c) ''type'' = Some (DString ''country'')"
  by (simp_all add: index_def sovereignEntry_def countryEntry_def isTerritory_def
      sovereignStateName_def)

lemma bulk_response:
  "\<not> unavailable st ''sovereign_states'' \<Longrightarrow> \<not> unavailable st ''countries'' \<Longrightarrow>
     fst (getBulkCountriesHandler L st q) =
       HttpOK (bulkResponse
                 (map sovereignEntry (decodedSovereigns L st) @
                  map (countryEntry (lastWithId (decodedSovereigns L st)))
                    (notYetEmitted (map ID (decodedSovereigns L st)) (decodedCountries L st)))
                 (userIdOf q))"
proof -
  assume a: "\<not> unavailable st ''sovereign_states''" and b: "\<not> unavailable st ''countries''"
  let ?sd = "filter (whereTrue [''is_active'']) (contents st ''sovereign_states'')"
  let ?cd = "filter (whereTrue [''is_active'']) (contents st ''countries'')"
  have m: "sovereignMapLoop L ?sd Map.empty = lastWithId (decodedSovereigns L st)"
    by (rule ext) (simp add: sovereignMapLoop_eq decodedSovereigns_def split: option.splits)
  define p where "p = (\<lambda>k. k \<in> set (map ID (decodedSovereigns L st)))"
  have sl: "sovereignLoop L ?sd (\<lambda>_. False) = (map sovereignEntry (decodedSovereigns L st), p)"
    by (simp add: sovereignLoop_eq decodedSovereigns_def p_def)
  have p: "\<And>k. p k = (k \<in> set (map ID (decodedSovereigns L st)))"
    by (simp add: p_def)
  have c: "countryLoop L (lastWithId (decodedSovereigns L st)) ?cd p =
      map (countryEntry (lastWithId (decodedSovereigns L st)))
        (notYetEmitted (map ID (decodedSovereigns L st)) (decodedCountries L st))"
    using countryLoop_eq [OF p] by (simp add: decodedCountries_def)
  show ?thesis
    using a b by (simp add: getBulkCountriesHandler_def getAll_def m sl c userIdOf_def Let_def)
qed



lemma catalog_samples:
  "decodedSovereigns sampleLibrary catalogStore = [ukState]"
  "decodedCountries sampleLibrary catalogStore = [ukCountry, scotland, scotland]"
  "decodedSovereigns sampleLibrary twinStore = [ukState, ukState]"
  "decodedCountries sampleLibrary twinStore = []"
  by (simp_all add: decodedSovereigns_def decodedCountries_def catalogStore_def twinStore_def
      sampleStore_def sampleLibrary_def whereTrue_def ukDoc_def ukCountryDoc_def scotlandDoc_def
      stringsToSovereignState_def stringsToCountry_def stringField_def index_def
      ukState_def ukCountry_def scotland_def List.map_filter_simps)

lemma catalog_available:
  "\<not> unavailable catalogStore ''sovereign_states''" "\<not> unavailable catalogStore ''countries''"
  "\<not> unavailable twinStore ''sovereign_states''" "\<not> unavailable twinStore ''countries''"
  by (simp_all add: catalogStore_def twinStore_def sampleStore_def)


lemma catalog_ids:
  "ID ukState = ''united_kingdom''" "ID scotland = ''scotland''"
  "SovereignStateID scotland = ''united_kingdom''" "Name ukState = ''United Kingdom''"
  "lastWithId [ukState] ''united_kingdom'' = Some ukState"
  "ID ukCountry = ''united_kingdom''"
  by (simp_all add: ukState_def ukCountry_def scotland_def lastWithId_def)


text \<open>
  The uniqueness of the ids among the sovereign states comes from the data and not from
  the handler: the first pass appends every sovereign state without looking at
  \<open>processedEntities\<close>. Two active sovereign state documents with one id, which the
  data model excludes, would both be emitted.
\<close>

lemma sovereign_pass_unchecked:
  "fst (getBulkCountriesHandler sampleLibrary twinStore []) =
     HttpOK (bulkResponse [sovereignEntry ukState, sovereignEntry ukState] ''unknown'') \<and>
   index (sovereignEntry ukState) ''id'' = Some (DString ''united_kingdom'')"
  using bulk_response [OF catalog_available(3) catalog_available(4), of sampleLibrary "[]"]
  by (simp add: catalog_samples entry_fields catalog_ids userIdOf_def queryGet_def)

end
